theory Spec2Isabelle
  imports Complex_Main "HOL-Library.Stream"
begin

section \<open>Data model (src/lib/types.ts)\<close>

text \<open>
  In the state machine below JavaScript numbers are exact reals: rounding, infinities and
  NaN are outside it. The arithmetic of the pan handler is also given in double precision
  (\<open>handleMouseMove_double\<close>), for the property that depends on rounding. Console
  logging, OpenTelemetry spans, DOM styling and wall-clock time stamps are side effects
  that no function below reads back, and are left out.
\<close>

record WidgetData =
  id_w :: string
  title_w :: string
  content_w :: string
  x_w :: real
  y_w :: real

record CanvasTransform =
  panX :: real
  panY :: real
  zoom :: real

datatype ApiErrorType = NetworkError | APIError | NotFoundError

datatype RequestParams =
    WidgetIdParams string
  | AllWidgetsParams nat real real real

record SimulatedError =
  message :: string
  errorType :: ApiErrorType
  status :: "int option"
  requestParams :: RequestParams
  simulatedStackTrace :: string

text \<open>
  A JavaScript array value together with its identity. The arrays that reach the widget
  store are never mutated after they are built, so the identity is a tag on the value:
  \<open>ref\<close> is the address the array was allocated at, \<open>elems\<close> its contents.
\<close>

record WidgetArray =
  ref :: nat
  elems :: "WidgetData list"

section \<open>Random samples\<close>

text \<open>
  \<open>Math.random()\<close> returns a number in the half-open interval from 0 to 1. The type
  \<open>sample\<close> carries that contract; the generator is a stream of samples, consumed from
  the front.
\<close>

typedef sample = "{r::real. 0 \<le> r \<and> r < 1}"
  morphisms sample_value Abs_sample
  by (rule exI [of _ 0]) simp

definition mk_sample :: "real \<Rightarrow> sample" where
  "mk_sample r = Abs_sample (if 0 \<le> r \<and> r < 1 then r else 0)"

definition Math_random :: "sample stream \<Rightarrow> sample \<times> sample stream" where
  "Math_random rs = (shd rs, stl rs)"

definition Math_floor :: "real \<Rightarrow> int" where
  "Math_floor v = \<lfloor>v\<rfloor>"

section \<open>Mock network service (src/lib/MockApiService.ts)\<close>

definition MOCK_WIDGET_TITLES :: "string list" where
  "MOCK_WIDGET_TITLES =
     [''Alpha Widget'', ''Bravo Item'', ''Charlie Component'', ''Delta Module'', ''Echo Element'']"

definition MOCK_WIDGET_CONTENTS :: "string list" where
  "MOCK_WIDGET_CONTENTS =
     [''This is some detailed content for the widget.'',
      ''Another piece of insightful information.'',
      ''Lorem ipsum dolor sit amet, consectetur adipiscing elit.'',
      ''Sed do eiusmod tempor incididunt ut labore et dolore magna aliqua.'',
      ''Ut enim ad minim veniam, quis nostrud exercitation ullamco laboris nisi ut aliquip ex ea commodo consequat.'']"

text \<open>Decimal rendering of a number inside a template literal.\<close>

definition digit_char :: "nat \<Rightarrow> char" where
  "digit_char d = char_of (48 + d)"

function decimal_digits :: "nat \<Rightarrow> string \<Rightarrow> string" where
  "decimal_digits n acc =
     (if n < 10 then digit_char n # acc
      else decimal_digits (n div 10) (digit_char (n mod 10) # acc))"
  by pat_completeness auto
termination
  by (relation "measure (\<lambda>(n, acc). n)") auto

definition number_text :: "int \<Rightarrow> string" where
  "number_text v =
     (if v < 0 then CHR ''-'' # decimal_digits (nat (- v)) [] else decimal_digits (nat v) [])"

text \<open>
  \<open>arr[Math.floor(Math.random() * arr.length)]\<close>: for a sample below 1 the index is
  below the length of a non-empty array.
\<close>

definition random_element :: "'a list \<Rightarrow> sample \<Rightarrow> 'a" where
  "random_element arr r = arr ! nat (Math_floor (sample_value r * real (length arr)))"

text \<open>
  \<open>Math.random().toString(36).substring(2, 15)\<close>. The radix-36 rendering of a number is
  the parameter \<open>toString36\<close>; \<open>substring(2, 15)\<close> keeps the characters at positions
  2 to 14.
\<close>

definition generateRandomId :: "(real \<Rightarrow> string) \<Rightarrow> sample \<Rightarrow> string" where
  "generateRandomId toString36 r = take 13 (drop 2 (toString36 (sample_value r)))"

text \<open>\<open>shouldSimulateError\<close>: one draw compared with the current error rate.\<close>

definition shouldSimulateError :: "real \<Rightarrow> sample stream \<Rightarrow> bool \<times> sample stream" where
  "shouldSimulateError errorRate rs =
     (let (r, rs1) = Math_random rs in (sample_value r < errorRate, rs1))"

definition errorTypes :: "(ApiErrorType \<times> string \<times> int option) list" where
  "errorTypes =
     [(NetworkError, ''Network timeout. Please check your connection.'', None),
      (APIError, ''Internal Server Error'', Some 500),
      (NotFoundError, ''Resource Not Found'', Some 404),
      (APIError, ''Invalid request parameters'', Some 400)]"

definition simulateError :: "RequestParams \<Rightarrow> sample stream \<Rightarrow> SimulatedError \<times> sample stream" where
  "simulateError params rs =
     (let (r1, rs1) = Math_random rs;
          randomErrorType = random_element errorTypes r1;
          (r2, rs2) = Math_random rs1;
          (r3, rs3) = Math_random rs2;
          msg = fst (snd randomErrorType)
      in (\<lparr> message = msg,
            errorType = fst randomErrorType,
            status = snd (snd randomErrorType),
            requestParams = params,
            simulatedStackTrace =
              ''Error: '' @ msg
              @ [CHR 0x0A] @ ''    at MockApiService.simulateError (MockApiService.ts:''
              @ number_text (Math_floor (sample_value r2 * 20) + 50) @ '')''
              @ [CHR 0x0A] @ ''    at <calling_method> (MockApiService.ts:''
              @ number_text (Math_floor (sample_value r3 * 20) + 80) @ '')'' \<rparr>,
          rs3))"

text \<open>
  \<open>fetchWidgetData\<close>: the latency is drawn when the call is made; the callback of the
  timeout then decides between rejection and a widget at a random position.
\<close>

definition fetchWidgetData ::
  "real \<Rightarrow> string \<Rightarrow> sample stream \<Rightarrow> (SimulatedError + WidgetData) \<times> sample stream" where
  "fetchWidgetData errorRate widgetId rs =
     (let (r0, rs0) = Math_random rs;
          latency = sample_value r0 * 800 + 200;
          (err, rs1) = shouldSimulateError errorRate rs0
      in if err then
           (let (e, rs2) = simulateError (WidgetIdParams widgetId) rs1 in (Inl e, rs2))
         else
           (let (r2, rs2) = Math_random rs1;
                (r3, rs3) = Math_random rs2;
                (r4, rs4) = Math_random rs3;
                (r5, rs5) = Math_random rs4
            in (Inr \<lparr> id_w = widgetId,
                      title_w = random_element MOCK_WIDGET_TITLES r2,
                      content_w = random_element MOCK_WIDGET_CONTENTS r3,
                      x_w = real_of_int (Math_floor (sample_value r4 * 1000 - 500)),
                      y_w = real_of_int (Math_floor (sample_value r5 * 1000 - 500)) \<rparr>,
                rs5)))"

text \<open>The body of the loop of \<open>fetchAllWidgets\<close>: the widget pushed in round \<open>i\<close>.\<close>

definition spawnWidget ::
  "(real \<Rightarrow> string) \<Rightarrow> nat \<Rightarrow> real \<Rightarrow> real \<Rightarrow> real \<Rightarrow> sample stream
     \<Rightarrow> WidgetData \<times> sample stream" where
  "spawnWidget toString36 i currentPanX currentPanY currentZoom rs =
     (let spawnRadius = 300 / currentZoom;
          (r1, rs1) = Math_random rs;
          (r2, rs2) = Math_random rs1;
          (r3, rs3) = Math_random rs2;
          (r4, rs4) = Math_random rs3;
          (r5, rs5) = Math_random rs4
      in (\<lparr> id_w = generateRandomId toString36 r1,
            title_w = random_element MOCK_WIDGET_TITLES r2 @ '' #'' @ number_text (int (i + 1)),
            content_w = random_element MOCK_WIDGET_CONTENTS r3,
            x_w = currentPanX + (sample_value r4 * spawnRadius * 2 - spawnRadius),
            y_w = currentPanY + (sample_value r5 * spawnRadius * 2 - spawnRadius) \<rparr>,
          rs5))"

function fetchAllWidgets_loop ::
  "(real \<Rightarrow> string) \<Rightarrow> nat \<Rightarrow> nat \<Rightarrow> real \<Rightarrow> real \<Rightarrow> real \<Rightarrow> sample stream
     \<Rightarrow> WidgetData list \<Rightarrow> WidgetData list \<times> sample stream" where
  "fetchAllWidgets_loop toString36 i count currentPanX currentPanY currentZoom rs newWidgets =
     (if i < count then
        fetchAllWidgets_loop toString36 (i + 1) count currentPanX currentPanY currentZoom
          (snd (spawnWidget toString36 i currentPanX currentPanY currentZoom rs))
          (newWidgets @ [fst (spawnWidget toString36 i currentPanX currentPanY currentZoom rs)])
      else (newWidgets, rs))"
  by pat_completeness auto
termination
  by (relation "measure (\<lambda>(_, i, count, _). count - i)") auto

text \<open>
  The callback of the timeout of \<open>fetchAllWidgets\<close>. It reads the error rate when it
  runs; \<open>fresh\<close> is the address of the array \<open>newWidgets\<close> it allocates.
\<close>

definition fetchAllWidgets_timeout ::
  "(real \<Rightarrow> string) \<Rightarrow> real \<Rightarrow> nat \<Rightarrow> nat \<Rightarrow> real \<Rightarrow> real \<Rightarrow> real \<Rightarrow> sample stream
     \<Rightarrow> (SimulatedError + WidgetArray) \<times> sample stream" where
  "fetchAllWidgets_timeout toString36 errorRate fresh count currentPanX currentPanY currentZoom rs =
     (let (err, rs1) = shouldSimulateError errorRate rs
      in if err then
           (let (e, rs2) =
                  simulateError (AllWidgetsParams count currentPanX currentPanY currentZoom) rs1
            in (Inl e, rs2))
         else
           (let (ws, rs2) =
                  fetchAllWidgets_loop toString36 0 count currentPanX currentPanY currentZoom rs1 []
            in (Inr \<lparr> ref = fresh, elems = ws \<rparr>, rs2)))"

text \<open>A whole call of \<open>fetchAllWidgets\<close>: the latency draw, then the callback.\<close>

definition fetchAllWidgets ::
  "(real \<Rightarrow> string) \<Rightarrow> real \<Rightarrow> nat \<Rightarrow> nat \<Rightarrow> real \<Rightarrow> real \<Rightarrow> real \<Rightarrow> sample stream
     \<Rightarrow> (SimulatedError + WidgetArray) \<times> sample stream" where
  "fetchAllWidgets toString36 errorRate fresh count currentPanX currentPanY currentZoom rs =
     (let (r0, rs0) = Math_random rs;
          latency = sample_value r0 * 1500 + 500
      in fetchAllWidgets_timeout toString36 errorRate fresh count currentPanX currentPanY
           currentZoom rs0)"

section \<open>Double precision\<close>









section \<open>Application state\<close>

text \<open>
  The Svelte stores of src/lib/stores.ts, the fields of the canvas component and of the
  service instance, and the part of the browser the code talks to: the pending timeouts
  of the debounce, the calls of the mock service that have not completed yet, the random
  generator and the next free array address.
\<close>

datatype caller = InitialLoad | FetchMore | InteractionFetch

record pending_call =
  origin :: caller
  count_p :: nat
  currentPanX_p :: real
  currentPanY_p :: real
  currentZoom_p :: real
  latency_p :: real

record app_state =
  canvasTransform :: CanvasTransform
  widgets :: WidgetArray
  isLoadingWidgets :: bool
  apiError :: "string option"
  errorProbability :: real
  errorRate_s :: real
  isPanning :: bool
  lastPanX :: real
  lastPanY :: real
  debounceTimer :: "nat option"
  viewportWidth :: real
  viewportHeight :: real
  timers :: "nat list"
  nextTimer :: nat
  inFlight :: "pending_call list"
  rng :: "sample stream"
  nextRef :: nat

definition DEBOUNCE_DELAY :: nat where
  "DEBOUNCE_DELAY = 400"

subsection \<open>Timers\<close>

definition clearTimeout :: "nat \<Rightarrow> app_state \<Rightarrow> app_state" where
  "clearTimeout h s = s\<lparr> timers := removeAll h (timers s) \<rparr>"

definition setTimeout :: "app_state \<Rightarrow> nat \<times> app_state" where
  "setTimeout s = (nextTimer s, s\<lparr> timers := timers s @ [nextTimer s], nextTimer := Suc (nextTimer s) \<rparr>)"

text \<open>
  \<open>triggerDebouncedFetch\<close>: a truthy handle is cleared, then a new timeout is set and
  its handle kept. Handle 0 is falsy in JavaScript.
\<close>

definition triggerDebouncedFetch :: "app_state \<Rightarrow> app_state" where
  "triggerDebouncedFetch s =
     (let s1 = (case debounceTimer s of
                  None \<Rightarrow> s
                | Some h \<Rightarrow> if h \<noteq> 0 then clearTimeout h s else s);
          (h', s2) = setTimeout s1
      in s2\<lparr> debounceTimer := Some h' \<rparr>)"

subsection \<open>Starting a call of the mock service\<close>

text \<open>
  The synchronous part of \<open>fetchAllWidgets\<close>: the latency is drawn and the callback is
  registered. The call stays in \<open>inFlight\<close> until its callback runs.
\<close>

definition fetchAllWidgets_call ::
  "caller \<Rightarrow> nat \<Rightarrow> real \<Rightarrow> real \<Rightarrow> real \<Rightarrow> app_state \<Rightarrow> app_state" where
  "fetchAllWidgets_call who count currentPanX currentPanY currentZoom s =
     (let (r0, rs0) = Math_random (rng s);
          latency = sample_value r0 * 1500 + 500
      in s\<lparr> rng := rs0,
            inFlight := inFlight s @
              [\<lparr> origin = who, count_p = count, currentPanX_p = currentPanX,
                 currentPanY_p = currentPanY, currentZoom_p = currentZoom,
                 latency_p = latency \<rparr>] \<rparr>)"

subsection \<open>Canvas component (src/lib/components/InfiniteCanvas.svelte)\<close>

definition updateViewportDimensions :: "real \<Rightarrow> real \<Rightarrow> app_state \<Rightarrow> app_state" where
  "updateViewportDimensions clientWidth clientHeight s =
     s\<lparr> viewportWidth := clientWidth, viewportHeight := clientHeight \<rparr>"

definition handleMouseDown :: "int \<Rightarrow> real \<Rightarrow> real \<Rightarrow> app_state \<Rightarrow> app_state" where
  "handleMouseDown button clientX clientY s =
     (if button \<noteq> 0 then s
      else s\<lparr> isPanning := True, lastPanX := clientX, lastPanY := clientY \<rparr>)"

text \<open>
  \<open>handleMouseMove\<close> as a step of the state machine, in exact arithmetic. The
  properties of the timers, of the calls in flight and of the store do not read the pan;
  the property of the pan itself is stated of \<open>handleMouseMove_double\<close> below.
\<close>

definition handleMouseMove :: "real \<Rightarrow> real \<Rightarrow> app_state \<Rightarrow> app_state" where
  "handleMouseMove clientX clientY s =
     (if \<not> isPanning s then s
      else
        (let dx = clientX - lastPanX s;
             dy = clientY - lastPanY s;
             current = canvasTransform s;
             s1 = s\<lparr> canvasTransform :=
                       current\<lparr> panX := panX current + dx / zoom current,
                                panY := panY current + dy / zoom current \<rparr> \<rparr>;
             s2 = s1\<lparr> lastPanX := clientX, lastPanY := clientY \<rparr>
         in triggerDebouncedFetch s2))"


definition handleMouseUp :: "app_state \<Rightarrow> app_state" where
  "handleMouseUp s = (if isPanning s then s\<lparr> isPanning := False \<rparr> else s)"

text \<open>
  \<open>handleWheel\<close>. \<open>rectLeft\<close> and \<open>rectTop\<close> are the left and top of the bounding
  rectangle of the container.
\<close>

definition handleWheel :: "real \<Rightarrow> real \<Rightarrow> real \<Rightarrow> real \<Rightarrow> real \<Rightarrow> app_state \<Rightarrow> app_state" where
  "handleWheel deltaY clientX clientY rectLeft rectTop s =
     (let zoomFactor = 1.15;
          transform = canvasTransform s;
          oldZoom = zoom transform;
          newZoom = (if deltaY < 0 then oldZoom * zoomFactor else oldZoom / zoomFactor);
          clampedZoom = max 0.1 (min newZoom 10)
      in if clampedZoom = oldZoom then s
         else
           (let mouseXInViewport = clientX - rectLeft;
                mouseYInViewport = clientY - rectTop;
                mouseXWorld = (mouseXInViewport / oldZoom) - panX transform;
                mouseYWorld = (mouseYInViewport / oldZoom) - panY transform;
                newPanX = (mouseXInViewport / clampedZoom) - mouseXWorld;
                newPanY = (mouseYInViewport / clampedZoom) - mouseYWorld
            in triggerDebouncedFetch
                 (s\<lparr> canvasTransform :=
                       \<lparr> panX = newPanX, panY = newPanY, zoom = clampedZoom \<rparr> \<rparr>)))"

definition handleResize :: "real \<Rightarrow> real \<Rightarrow> app_state \<Rightarrow> app_state" where
  "handleResize clientWidth clientHeight s =
     triggerDebouncedFetch (updateViewportDimensions clientWidth clientHeight s)"

text \<open>
  \<open>fetchWidgetsForCurrentView\<close> up to its \<open>await\<close>: the early return while a fetch is
  loading, otherwise the flags and the call of the service for one widget at the centre
  of the view.
\<close>

definition fetchWidgetsForCurrentView :: "app_state \<Rightarrow> app_state" where
  "fetchWidgetsForCurrentView s =
     (if isLoadingWidgets s then s
      else
        (let s1 = s\<lparr> isLoadingWidgets := True, apiError := None \<rparr>;
             transform = canvasTransform s1;
             worldViewCenterX = (viewportWidth s1 / 2 / zoom transform) - panX transform;
             worldViewCenterY = (viewportHeight s1 / 2 / zoom transform) - panY transform
         in fetchAllWidgets_call InteractionFetch 1 worldViewCenterX worldViewCenterY
              (zoom transform) s1))"

text \<open>
  The function passed to \<open>widgetStore.update\<close>: \<open>fresh\<close> is the address of the array
  that the spread expression allocates.
\<close>

definition widgetStore_updater :: "nat \<Rightarrow> WidgetArray \<Rightarrow> WidgetArray \<Rightarrow> WidgetArray" where
  "widgetStore_updater fresh newWidgets current =
     (let existingIds = set (map id_w (elems current));
          trulyNewWidgets = filter (\<lambda>nw. id_w nw \<notin> existingIds) (elems newWidgets);
          addedCount = length trulyNewWidgets
      in if addedCount > 0 then \<lparr> ref = fresh, elems = elems current @ trulyNewWidgets \<rparr>
         else current)"

text \<open>
  \<open>fetchWidgetsForCurrentView\<close> after its \<open>await\<close>: the merge when the call resolved,
  the \<open>catch\<close> block when it rejected, then the \<open>finally\<close> block.
\<close>

definition fetchWidgetsForCurrentView_resume ::
  "SimulatedError + WidgetArray \<Rightarrow> app_state \<Rightarrow> app_state" where
  "fetchWidgetsForCurrentView_resume outcome s =
     (let s1 = (case outcome of
                  Inr newWidgets \<Rightarrow>
                    s\<lparr> widgets := widgetStore_updater (nextRef s) newWidgets (widgets s),
                       nextRef := Suc (nextRef s) \<rparr>
                | Inl e \<Rightarrow>
                    s\<lparr> apiError := Some (''Interaction fetch failed: '' @
                         (if message e = [] then ''Unknown error'' else message e)) \<rparr>)
      in s1\<lparr> isLoadingWidgets := False, debounceTimer := None \<rparr>)"

definition canvas_onMount :: "real \<Rightarrow> real \<Rightarrow> app_state \<Rightarrow> app_state" where
  "canvas_onMount clientWidth clientHeight s = updateViewportDimensions clientWidth clientHeight s"

text \<open>
  \<open>isWidgetInView\<close>; the viewport dimensions are the component's variables at the time
  of the call.
\<close>

definition isWidgetInView :: "real \<Rightarrow> real \<Rightarrow> WidgetData \<Rightarrow> CanvasTransform \<Rightarrow> bool" where
  "isWidgetInView vpWidth vpHeight widget currentTransform =
     (let widgetWidthWorld = 220;
          widgetHeightWorld = 150;
          buffer = 100 / zoom currentTransform;
          w_left = x_w widget;
          w_right = x_w widget + widgetWidthWorld;
          w_top = y_w widget;
          w_bottom = y_w widget + widgetHeightWorld;
          v_left = - panX currentTransform - buffer;
          v_top = - panY currentTransform - buffer;
          v_right = - panX currentTransform + (vpWidth / zoom currentTransform) + buffer;
          v_bottom = - panY currentTransform + (vpHeight / zoom currentTransform) + buffer
      in w_left < v_right \<and> w_right > v_left \<and> w_top < v_bottom \<and> w_bottom > v_top)"

subsection \<open>Page (src/routes/+page.svelte)\<close>

definition page_error_text :: "SimulatedError \<Rightarrow> string" where
  "page_error_text e = (if message e = [] then ''An unknown error occurred.'' else message e)"

definition fetchMoreWidgets :: "real \<Rightarrow> real \<Rightarrow> app_state \<Rightarrow> app_state" where
  "fetchMoreWidgets innerWidth innerHeight s =
     (let s1 = s\<lparr> isLoadingWidgets := True, apiError := None \<rparr>;
          t = canvasTransform s1
      in fetchAllWidgets_call FetchMore 3
           (- panX t + (innerWidth / 2 / zoom t))
           (- panY t + (innerHeight / 2 / zoom t))
           (zoom t) s1)"

definition fetchMoreWidgets_resume ::
  "SimulatedError + WidgetArray \<Rightarrow> app_state \<Rightarrow> app_state" where
  "fetchMoreWidgets_resume outcome s =
     (let s1 = (case outcome of
                  Inr newWidgets \<Rightarrow>
                    s\<lparr> widgets := \<lparr> ref = nextRef s,
                                     elems = elems (widgets s) @ elems newWidgets \<rparr>,
                       nextRef := Suc (nextRef s) \<rparr>
                | Inl e \<Rightarrow> s\<lparr> apiError := Some (page_error_text e) \<rparr>)
      in s1\<lparr> isLoadingWidgets := False \<rparr>)"

definition page_onMount :: "real \<Rightarrow> real \<Rightarrow> app_state \<Rightarrow> app_state" where
  "page_onMount innerWidth innerHeight s =
     (let s1 = s\<lparr> isLoadingWidgets := True, apiError := None \<rparr>;
          t = canvasTransform s1;
          initialWorldCenterX = (innerWidth / 2 / zoom t) - panX t;
          initialWorldCenterY = (innerHeight / 2 / zoom t) - panY t
      in fetchAllWidgets_call InitialLoad 5 initialWorldCenterX initialWorldCenterY (zoom t) s1)"

definition page_onMount_resume ::
  "SimulatedError + WidgetArray \<Rightarrow> app_state \<Rightarrow> app_state" where
  "page_onMount_resume outcome s =
     (let s1 = (case outcome of
                  Inr newWidgets \<Rightarrow> s\<lparr> widgets := newWidgets \<rparr>
                | Inl e \<Rightarrow> s\<lparr> apiError := Some (page_error_text e) \<rparr>)
      in s1\<lparr> isLoadingWidgets := False \<rparr>)"

text \<open>
  \<open>handleProbabilityChange\<close> and \<open>setErrorProbability\<close>: a value between 0 and 1 is
  written to the store, whose subscription copies it into the service.
\<close>

definition setErrorProbability :: "real \<Rightarrow> app_state \<Rightarrow> app_state" where
  "setErrorProbability probability s =
     (if probability \<ge> 0 \<and> probability \<le> 1
      then s\<lparr> errorProbability := probability, errorRate_s := probability \<rparr>
      else s)"

definition handleProbabilityChange :: "real \<Rightarrow> app_state \<Rightarrow> app_state" where
  "handleProbabilityChange newProb s =
     (if newProb \<ge> 0 \<and> newProb \<le> 1 then setErrorProbability newProb s else s)"

section \<open>Events\<close>

text \<open>
  The application is single-threaded: every handler and every continuation after an
  \<open>await\<close> runs to completion before the next event. An event is a user input, the
  expiry of a debounce timeout, or the callback of a pending call of the mock service
  (which settles the promise and runs the continuation of the caller at once).
\<close>

datatype event =
    MouseDown int real real
  | MouseMove real real
  | MouseUp
  | Wheel real real real real real
  | Resize real real
  | TimerFires nat
  | ServiceTimeout nat
  | ClickFetchMore real real
  | ProbabilityChange real
  | DismissError

definition timerFires :: "nat \<Rightarrow> app_state \<Rightarrow> app_state" where
  "timerFires h s = fetchWidgetsForCurrentView (s\<lparr> timers := removeAll h (timers s) \<rparr>)"

text \<open>
  The callback of the \<open>k\<close>-th pending call: the call leaves \<open>inFlight\<close>, the service
  draws its samples and settles, an array is allocated when it resolves, and the caller
  resumes.
\<close>

definition serviceOutcome ::
  "(real \<Rightarrow> string) \<Rightarrow> nat \<Rightarrow> app_state \<Rightarrow> (SimulatedError + WidgetArray) \<times> sample stream" where
  "serviceOutcome toString36 k s =
     (let c = inFlight s ! k
      in fetchAllWidgets_timeout toString36 (errorRate_s s) (nextRef s) (count_p c)
           (currentPanX_p c) (currentPanY_p c) (currentZoom_p c) (rng s))"

definition serviceTimeout :: "(real \<Rightarrow> string) \<Rightarrow> nat \<Rightarrow> app_state \<Rightarrow> app_state" where
  "serviceTimeout toString36 k s =
     (let c = inFlight s ! k;
          (outcome, rs') = serviceOutcome toString36 k s;
          s1 = s\<lparr> inFlight := take k (inFlight s) @ drop (Suc k) (inFlight s),
                  rng := rs',
                  nextRef := (case outcome of Inl e \<Rightarrow> nextRef s | Inr ws \<Rightarrow> Suc (nextRef s)) \<rparr>
      in case origin c of
           InitialLoad \<Rightarrow> page_onMount_resume outcome s1
         | FetchMore \<Rightarrow> fetchMoreWidgets_resume outcome s1
         | InteractionFetch \<Rightarrow> fetchWidgetsForCurrentView_resume outcome s1)"

text \<open>
  One event. A timeout fires only while it is pending, a callback runs only for a call
  in flight, and the fetch-more button is disabled while \<open>isLoadingWidgets\<close> is set.
\<close>

fun step :: "(real \<Rightarrow> string) \<Rightarrow> app_state \<Rightarrow> event \<Rightarrow> app_state" where
  "step toString36 s (MouseDown button clientX clientY) = handleMouseDown button clientX clientY s"
| "step toString36 s (MouseMove clientX clientY) = handleMouseMove clientX clientY s"
| "step toString36 s MouseUp = handleMouseUp s"
| "step toString36 s (Wheel deltaY clientX clientY rectLeft rectTop) =
     handleWheel deltaY clientX clientY rectLeft rectTop s"
| "step toString36 s (Resize clientWidth clientHeight) = handleResize clientWidth clientHeight s"
| "step toString36 s (TimerFires h) = (if h \<in> set (timers s) then timerFires h s else s)"
| "step toString36 s (ServiceTimeout k) =
     (if k < length (inFlight s) then serviceTimeout toString36 k s else s)"
| "step toString36 s (ClickFetchMore innerWidth innerHeight) =
     (if isLoadingWidgets s then s else fetchMoreWidgets innerWidth innerHeight s)"
| "step toString36 s (ProbabilityChange newProb) = handleProbabilityChange newProb s"
| "step toString36 s DismissError = s\<lparr> apiError := None \<rparr>"

definition run :: "(real \<Rightarrow> string) \<Rightarrow> app_state \<Rightarrow> event list \<Rightarrow> app_state" where
  "run toString36 s evs = foldl (step toString36) s evs"

text \<open>
  The state before the components mount (the initial values of the stores and of the
  component variables), and the state after the canvas and the page have mounted: the
  page starts the initial load of five widgets.
\<close>

definition unmounted_state :: "sample stream \<Rightarrow> app_state" where
  "unmounted_state rs =
     \<lparr> canvasTransform = \<lparr> panX = 0, panY = 0, zoom = 1 \<rparr>,
       widgets = \<lparr> ref = 0, elems = [] \<rparr>,
       isLoadingWidgets = False,
       apiError = None,
       errorProbability = 0.15,
       errorRate_s = 0.15,
       isPanning = False,
       lastPanX = 0,
       lastPanY = 0,
       debounceTimer = None,
       viewportWidth = 0,
       viewportHeight = 0,
       timers = [],
       nextTimer = 1,
       inFlight = [],
       rng = rs,
       nextRef = 1 \<rparr>"

definition initial_state :: "sample stream \<Rightarrow> real \<Rightarrow> real \<Rightarrow> real \<Rightarrow> real \<Rightarrow> app_state" where
  "initial_state rs clientWidth clientHeight innerWidth innerHeight =
     page_onMount innerWidth innerHeight
       (canvas_onMount clientWidth clientHeight (unmounted_state rs))"

section \<open>Notions used by the properties\<close>

text \<open>
  The transform as the page draws it. The style attribute of the content element is
  \<open>translate(panX px, panY px) scale(zoom)\<close> with origin at the top left: a point of
  the world is scaled, then translated, so \<open>screen = world * zoom + pan\<close>, as in
  section 4.1 of the specification and in the comment on \<open>CanvasTransform\<close> (the pan
  is the offset of the world origin from the top left corner of the viewport).
  \<open>styleInverse\<close> is the world point drawn at a screen point.
\<close>

definition styleTransform :: "CanvasTransform \<Rightarrow> real \<times> real \<Rightarrow> real \<times> real" where
  "styleTransform t w = (fst w * zoom t + panX t, snd w * zoom t + panY t)"

definition styleInverse :: "CanvasTransform \<Rightarrow> real \<times> real \<Rightarrow> real \<times> real" where
  "styleInverse t p = ((fst p - panX t) / zoom t, (snd p - panY t) / zoom t)"

text \<open>
  The conversion that the handlers of the canvas compute instead (\<open>mouseXWorld\<close> in
  \<open>handleWheel\<close>, the centre of the view in \<open>fetchWidgetsForCurrentView\<close>): the
  screen coordinate is divided by the zoom, then the pan is subtracted.
\<close>

definition screenToWorld :: "CanvasTransform \<Rightarrow> real \<times> real \<Rightarrow> real \<times> real" where
  "screenToWorld t p = (fst p / zoom t - panX t, snd p / zoom t - panY t)"

text \<open>Axis-aligned rectangles in world coordinates.\<close>

record rect =
  r_left :: real
  r_top :: real
  r_right :: real
  r_bottom :: real

definition widget_rect :: "WidgetData \<Rightarrow> rect" where
  "widget_rect w = \<lparr> r_left = x_w w, r_top = y_w w, r_right = x_w w + 220, r_bottom = y_w w + 150 \<rparr>"

text \<open>
  The world rectangle of the viewport: the world points drawn at the corners (0, 0) and
  (width, height) of the viewport.
\<close>

definition viewport_rect :: "real \<Rightarrow> real \<Rightarrow> CanvasTransform \<Rightarrow> rect" where
  "viewport_rect vpWidth vpHeight t =
     \<lparr> r_left = fst (styleInverse t (0, 0)), r_top = snd (styleInverse t (0, 0)),
       r_right = fst (styleInverse t (vpWidth, vpHeight)),
       r_bottom = snd (styleInverse t (vpWidth, vpHeight)) \<rparr>"

definition inflate :: "real \<Rightarrow> rect \<Rightarrow> rect" where
  "inflate d r =
     \<lparr> r_left = r_left r - d, r_top = r_top r - d, r_right = r_right r + d, r_bottom = r_bottom r + d \<rparr>"

definition in_rect :: "real \<times> real \<Rightarrow> rect \<Rightarrow> bool" where
  "in_rect p r = (r_left r < fst p \<and> fst p < r_right r \<and> r_top r < snd p \<and> snd p < r_bottom r)"

text \<open>
  Two rectangles overlap when their interiors share a point; \<open>rects_overlap\<close> decides
  it from the corners.
\<close>

definition rects_overlap :: "rect \<Rightarrow> rect \<Rightarrow> bool" where
  "rects_overlap a b =
     (max (r_left a) (r_left b) < min (r_right a) (r_right b) \<and>
      max (r_top a) (r_top b) < min (r_bottom a) (r_bottom b))"

definition rect_inside :: "rect \<Rightarrow> rect \<Rightarrow> bool" where
  "rect_inside a b =
     (r_left b \<le> r_left a \<and> r_right a \<le> r_right b \<and> r_top b \<le> r_top a \<and> r_bottom a \<le> r_bottom b)"

definition rect_outside :: "rect \<Rightarrow> rect \<Rightarrow> bool" where
  "rect_outside a b =
     (r_right a \<le> r_left b \<or> r_right b \<le> r_left a \<or> r_bottom a \<le> r_top b \<or> r_bottom b \<le> r_top a)"

text \<open>
  The merge of section 4.4 in the words of the specification: the incoming widgets whose
  identifier is not already present, appended in the order they were fetched.
\<close>

definition spec_survivors :: "WidgetData list \<Rightarrow> WidgetData list \<Rightarrow> WidgetData list" where
  "spec_survivors store batch = filter (\<lambda>w. id_w w \<notin> id_w ` set store) batch"

definition store_ids :: "app_state \<Rightarrow> string list" where
  "store_ids s = map id_w (elems (widgets s))"

text \<open>
  The zoom a wheel event asks for, and the zoom after clamping, as \<open>handleWheel\<close>
  computes them (\<open>newZoom\<close> and \<open>clampedZoom\<close>).
\<close>

definition requestedZoom :: "real \<Rightarrow> real \<Rightarrow> real" where
  "requestedZoom deltaY oldZoom = (if deltaY < 0 then oldZoom * 1.15 else oldZoom / 1.15)"

definition clampedZoom :: "real \<Rightarrow> real \<Rightarrow> real" where
  "clampedZoom deltaY oldZoom = max 0.1 (min (requestedZoom deltaY oldZoom) 10)"

text \<open>
  The identifiers of the batch that arrives while an event is handled (when the event
  is the callback of a call that resolves).
\<close>

definition batch_ids :: "(real \<Rightarrow> string) \<Rightarrow> app_state \<Rightarrow> event \<Rightarrow> string list" where
  "batch_ids toString36 s e =
     (case e of
        ServiceTimeout k \<Rightarrow>
          (if k < length (inFlight s) then
             (case fst (serviceOutcome toString36 k s) of
                Inl err \<Rightarrow> []
              | Inr ws \<Rightarrow> map id_w (elems ws))
           else [])
      | _ \<Rightarrow> [])"

text \<open>
  A batch that the code stores without filtering is fresh when it brings no identifier
  twice: the batch of the initial load, which replaces the store, has pairwise distinct
  identifiers; the batch of the fetch-more button, which is appended, has pairwise
  distinct identifiers that are not in the store. The batch of a debounced fetch is
  filtered by the merge and needs no condition.
\<close>

definition unfiltered_batch_fresh :: "(real \<Rightarrow> string) \<Rightarrow> app_state \<Rightarrow> event \<Rightarrow> bool" where
  "unfiltered_batch_fresh toString36 s e =
     (case e of
        ServiceTimeout k \<Rightarrow>
          (if k < length (inFlight s) then
             (case origin (inFlight s ! k) of
                InitialLoad \<Rightarrow> distinct (batch_ids toString36 s e)
              | FetchMore \<Rightarrow> distinct (store_ids s @ batch_ids toString36 s e)
              | InteractionFetch \<Rightarrow> True)
           else True)
      | _ \<Rightarrow> True)"

fun unfiltered_batches_fresh :: "(real \<Rightarrow> string) \<Rightarrow> app_state \<Rightarrow> event list \<Rightarrow> bool" where
  "unfiltered_batches_fresh toString36 s [] = True"
| "unfiltered_batches_fresh toString36 s (e # evs) =
     (unfiltered_batch_fresh toString36 s e
      \<and> unfiltered_batches_fresh toString36 (step toString36 s e) evs)"

text \<open>The calls of the mock service in flight that the debounce started.\<close>

definition interaction_fetches :: "app_state \<Rightarrow> pending_call list" where
  "interaction_fetches s = filter (\<lambda>c. origin c = InteractionFetch) (inFlight s)"

text \<open>At most one call is in flight, and the loading flag is set while one is.\<close>

definition single_flight :: "app_state \<Rightarrow> bool" where
  "single_flight s = (length (inFlight s) \<le> 1 \<and> (inFlight s = [] \<or> isLoadingWidgets s))"

text \<open>The number of widgets each caller asks the service for.\<close>

fun batch_size :: "caller \<Rightarrow> nat" where
  "batch_size InitialLoad = 5"
| "batch_size FetchMore = 3"
| "batch_size InteractionFetch = 1"

definition counts_ok :: "app_state \<Rightarrow> bool" where
  "counts_ok s = list_all (\<lambda>c. count_p c = batch_size (origin c)) (inFlight s)"

text \<open>
  A session used to evaluate the model: every sample is one half (rendered \<open>0.i\<close> in
  radix 36), the container and the window are 800 by 600.
\<close>

definition half_samples :: "sample stream" where
  "half_samples = sconst (mk_sample (1 / 2))"

definition render_half :: "real \<Rightarrow> string" where
  "render_half v = ''0.i''"

definition session_start :: app_state where
  "session_start = initial_state half_samples 800 600 800 600"

text \<open>
  A second session, with identifiers that differ. \<open>radix36\<close> is the radix-36
  rendering of a number between 0 and 1 with a terminating expansion (one half is
  \<open>0.i\<close>, one eighth is \<open>0.4i\<close>). In \<open>collision_samples\<close> every draw is one half,
  but for the identifiers of the five widgets of the initial load (1/8, 1/4, 3/8, 5/8 and
  3/4, the draws 2, 7, 12, 17 and 22) and for the identifier of the first debounced fetch
  (1/4 again, the draw 29).
\<close>

definition digit36 :: "nat \<Rightarrow> char" where
  "digit36 d = (if d < 10 then char_of (48 + d) else char_of (87 + d))"

primrec fraction36 :: "nat \<Rightarrow> real \<Rightarrow> string" where
  "fraction36 0 v = []"
| "fraction36 (Suc n) v =
     (if v = 0 then []
      else digit36 (nat \<lfloor>v * 36\<rfloor>) # fraction36 n (v * 36 - real_of_int \<lfloor>v * 36\<rfloor>))"

definition radix36 :: "real \<Rightarrow> string" where
  "radix36 v = (if v = 0 then ''0'' else ''0.'' @ fraction36 52 v)"

definition collision_draw :: "nat \<Rightarrow> real" where
  "collision_draw n =
     (if n = 2 then 1 / 8 else if n = 7 then 1 / 4 else if n = 12 then 3 / 8
      else if n = 17 then 5 / 8 else if n = 22 then 3 / 4 else if n = 29 then 1 / 4
      else 1 / 2)"

definition collision_samples :: "sample stream" where
  "collision_samples = smap (\<lambda>n. mk_sample (collision_draw n)) (fromN 0)"

definition collision_events :: "event list" where
  "collision_events =
     [ServiceTimeout 0, Resize 1024 768, TimerFires 1, ServiceTimeout 0,
      Resize 1024 768, TimerFires 2, ServiceTimeout 0]"



section \<open>Basic facts\<close>

declare fetchAllWidgets_loop.simps [simp del]
declare decimal_digits.simps [simp del]

lemma sample_value_mk_sample [simp]:
  "sample_value (mk_sample r) = (if 0 \<le> r \<and> r < 1 then r else 0)"
  by (simp add: mk_sample_def Abs_sample_inverse)

lemma sample_value_range: "0 \<le> sample_value r \<and> sample_value r < 1"
  using sample_value [of r] by simp

lemma Math_random_half_samples [simp]:
  "Math_random half_samples = (mk_sample (1 / 2), half_samples)"
  by (simp add: Math_random_def half_samples_def)

lemma triggerDebouncedFetch_keeps [simp]:
  "canvasTransform (triggerDebouncedFetch s) = canvasTransform s"
  "widgets (triggerDebouncedFetch s) = widgets s"
  "isLoadingWidgets (triggerDebouncedFetch s) = isLoadingWidgets s"
  "apiError (triggerDebouncedFetch s) = apiError s"
  "inFlight (triggerDebouncedFetch s) = inFlight s"
  "isPanning (triggerDebouncedFetch s) = isPanning s"
  "lastPanX (triggerDebouncedFetch s) = lastPanX s"
  "lastPanY (triggerDebouncedFetch s) = lastPanY s"
  "rng (triggerDebouncedFetch s) = rng s"
  "nextRef (triggerDebouncedFetch s) = nextRef s"
  "errorRate_s (triggerDebouncedFetch s) = errorRate_s s"
  "errorProbability (triggerDebouncedFetch s) = errorProbability s"
  "viewportWidth (triggerDebouncedFetch s) = viewportWidth s"
  "viewportHeight (triggerDebouncedFetch s) = viewportHeight s"
  by (simp_all add: triggerDebouncedFetch_def setTimeout_def clearTimeout_def Let_def
      split: option.split)

lemma fetchAllWidgets_call_keeps [simp]:
  "canvasTransform (fetchAllWidgets_call who n px py z s) = canvasTransform s"
  "widgets (fetchAllWidgets_call who n px py z s) = widgets s"
  "isLoadingWidgets (fetchAllWidgets_call who n px py z s) = isLoadingWidgets s"
  "apiError (fetchAllWidgets_call who n px py z s) = apiError s"
  "timers (fetchAllWidgets_call who n px py z s) = timers s"
  "debounceTimer (fetchAllWidgets_call who n px py z s) = debounceTimer s"
  "nextRef (fetchAllWidgets_call who n px py z s) = nextRef s"
  "errorRate_s (fetchAllWidgets_call who n px py z s) = errorRate_s s"
  "isPanning (fetchAllWidgets_call who n px py z s) = isPanning s"
  by (simp_all add: fetchAllWidgets_call_def Math_random_def)

lemma inFlight_fetchAllWidgets_call:
  "inFlight (fetchAllWidgets_call who n px py z s) =
     inFlight s @ [\<lparr> origin = who, count_p = n, currentPanX_p = px, currentPanY_p = py,
                      currentZoom_p = z, latency_p = sample_value (shd (rng s)) * 1500 + 500 \<rparr>]"
  by (simp add: fetchAllWidgets_call_def Math_random_def)

lemma session_start_simps [simp]:
  "canvasTransform session_start = \<lparr> panX = 0, panY = 0, zoom = 1 \<rparr>"
  "widgets session_start = \<lparr> ref = 0, elems = [] \<rparr>"
  "isLoadingWidgets session_start = True"
  "apiError session_start = None"
  "errorRate_s session_start = 0.15"
  "isPanning session_start = False"
  "debounceTimer session_start = None"
  "timers session_start = []"
  "nextTimer session_start = 1"
  "viewportWidth session_start = 800"
  "viewportHeight session_start = 600"
  "rng session_start = half_samples"
  "nextRef session_start = 1"
  "inFlight session_start =
     [\<lparr> origin = InitialLoad, count_p = 5, currentPanX_p = 400, currentPanY_p = 300,
        currentZoom_p = 1, latency_p = 1250 \<rparr>]"
  by (simp_all add: session_start_def initial_state_def page_onMount_def canvas_onMount_def
      updateViewportDimensions_def unmounted_state_def fetchAllWidgets_call_def Let_def)

section \<open>Viewport culling\<close>

text \<open>\<open>rects_overlap\<close> holds exactly when the interiors of the rectangles share a point.\<close>

lemma rects_overlap_iff_common_point:
  "rects_overlap a b \<longleftrightarrow> (\<exists>p. in_rect p a \<and> in_rect p b)"
proof
  assume ov: "rects_overlap a b"
  define px where "px = (max (r_left a) (r_left b) + min (r_right a) (r_right b)) / 2"
  define py where "py = (max (r_top a) (r_top b) + min (r_bottom a) (r_bottom b)) / 2"
  have mid: "l < (l + r) / 2 \<and> (l + r) / 2 < r" if "l < r" for l r :: real
    using that by simp
  have "max (r_left a) (r_left b) < px \<and> px < min (r_right a) (r_right b)"
    unfolding px_def using ov mid by (simp only: rects_overlap_def)
  moreover have "max (r_top a) (r_top b) < py \<and> py < min (r_bottom a) (r_bottom b)"
    unfolding py_def using ov mid by (simp only: rects_overlap_def)
  ultimately have "in_rect (px, py) a \<and> in_rect (px, py) b"
    by (simp add: in_rect_def)
  then show "\<exists>p. in_rect p a \<and> in_rect p b" by blast
next
  assume "\<exists>p. in_rect p a \<and> in_rect p b"
  then obtain p where "in_rect p a" "in_rect p b" by blast
  then show "rects_overlap a b"
    by (auto simp: in_rect_def rects_overlap_def)
qed

text \<open>
  Where the world origin is drawn at the top left corner of the viewport (pan 0), the
  predicate is the overlap test of section 4.5.
\<close>

lemma isWidgetInView_at_pan_0:
  assumes "0 < zoom t" and "0 \<le> vpWidth" and "0 \<le> vpHeight" and "panX t = 0" and "panY t = 0"
  shows "isWidgetInView vpWidth vpHeight w t
           = rects_overlap (widget_rect w) (inflate (100 / zoom t) (viewport_rect vpWidth vpHeight t))"
proof -
  have w: "0 < 200 / zoom t + vpWidth / zoom t" "0 < 200 / zoom t + vpHeight / zoom t"
    using assms by (simp_all add: add_pos_nonneg)
  show ?thesis
    using w assms(4,5)
    by (auto simp: isWidgetInView_def rects_overlap_def widget_rect_def inflate_def
        viewport_rect_def styleInverse_def Let_def)
qed

text \<open>
  C8 fails on the code. With pan (100, 0), zoom 10 and a viewport of 800 by 600, the
  widget at the world origin is drawn over the screen rectangle from (100, 0) to
  (2300, 1500), which covers the viewport from x = 100 on; its world rectangle overlaps
  the world rectangle of the viewport, inflated or not, and \<open>isWidgetInView\<close> returns
  false: it takes the left edge of the viewport at \<open>- panX\<close> and its width as
  \<open>viewportWidth / zoom\<close>, where the page draws it from \<open>- panX / zoom\<close>.
\<close>

theorem isWidgetInView_culls_drawn_widget:
  "styleTransform \<lparr> panX = 100, panY = 0, zoom = 10 \<rparr> (0, 0) = (100, 0)
   \<and> styleTransform \<lparr> panX = 100, panY = 0, zoom = 10 \<rparr> (0 + 220, 0 + 150) = (2300, 1500)
   \<and> viewport_rect 800 600 \<lparr> panX = 100, panY = 0, zoom = 10 \<rparr>
       = \<lparr> r_left = - 10, r_top = 0, r_right = 70, r_bottom = 60 \<rparr>
   \<and> rects_overlap
        (widget_rect \<lparr> id_w = ''a'', title_w = ''t'', content_w = ''c'', x_w = 0, y_w = 0 \<rparr>)
        (viewport_rect 800 600 \<lparr> panX = 100, panY = 0, zoom = 10 \<rparr>)
   \<and> rects_overlap
        (widget_rect \<lparr> id_w = ''a'', title_w = ''t'', content_w = ''c'', x_w = 0, y_w = 0 \<rparr>)
        (inflate (100 / zoom \<lparr> panX = 100, panY = 0, zoom = 10 \<rparr>)
           (viewport_rect 800 600 \<lparr> panX = 100, panY = 0, zoom = 10 \<rparr>))
   \<and> \<not> isWidgetInView 800 600
        \<lparr> id_w = ''a'', title_w = ''t'', content_w = ''c'', x_w = 0, y_w = 0 \<rparr>
        \<lparr> panX = 100, panY = 0, zoom = 10 \<rparr>"
  by (simp add: styleTransform_def viewport_rect_def styleInverse_def rects_overlap_def
      widget_rect_def inflate_def isWidgetInView_def)

section \<open>Pan and zoom\<close>

lemma handleWheel_alt:
  "handleWheel deltaY clientX clientY rectLeft rectTop s =
     (if clampedZoom deltaY (zoom (canvasTransform s)) = zoom (canvasTransform s) then s
      else triggerDebouncedFetch
        (s\<lparr> canvasTransform :=
           \<lparr> panX = ((clientX - rectLeft) / clampedZoom deltaY (zoom (canvasTransform s)))
                     - (((clientX - rectLeft) / zoom (canvasTransform s)) - panX (canvasTransform s)),
             panY = ((clientY - rectTop) / clampedZoom deltaY (zoom (canvasTransform s)))
                     - (((clientY - rectTop) / zoom (canvasTransform s)) - panY (canvasTransform s)),
             zoom = clampedZoom deltaY (zoom (canvasTransform s)) \<rparr> \<rparr>))"
  unfolding handleWheel_def clampedZoom_def requestedZoom_def Let_def by (rule refl)

lemma handleWheel_unchanged:
  "clampedZoom deltaY (zoom (canvasTransform s)) = zoom (canvasTransform s)
   \<Longrightarrow> handleWheel deltaY clientX clientY rectLeft rectTop s = s"
  by (simp add: handleWheel_alt)

lemma handleWheel_changed:
  "clampedZoom deltaY (zoom (canvasTransform s)) \<noteq> zoom (canvasTransform s)
   \<Longrightarrow> canvasTransform (handleWheel deltaY clientX clientY rectLeft rectTop s) =
       \<lparr> panX = (clientX - rectLeft) / clampedZoom deltaY (zoom (canvasTransform s))
                 - ((clientX - rectLeft) / zoom (canvasTransform s) - panX (canvasTransform s)),
         panY = (clientY - rectTop) / clampedZoom deltaY (zoom (canvasTransform s))
                 - ((clientY - rectTop) / zoom (canvasTransform s) - panY (canvasTransform s)),
         zoom = clampedZoom deltaY (zoom (canvasTransform s)) \<rparr>"
  by (simp add: handleWheel_alt)

lemma handleWheel_zoom:
  "zoom (canvasTransform (handleWheel deltaY clientX clientY rectLeft rectTop s))
     = clampedZoom deltaY (zoom (canvasTransform s))"
  by (simp add: handleWheel_alt)

lemma clampedZoom_pos: "0 < clampedZoom deltaY z"
  by (simp add: clampedZoom_def max_def)

text \<open>
  What \<open>handleWheel\<close> does keep: the value of its own conversion at the cursor.
\<close>

lemma handleWheel_keeps_screenToWorld:
  assumes "clampedZoom deltaY (zoom (canvasTransform s)) \<noteq> zoom (canvasTransform s)"
  shows "screenToWorld (canvasTransform (handleWheel deltaY clientX clientY rectLeft rectTop s))
           (clientX - rectLeft, clientY - rectTop)
         = screenToWorld (canvasTransform s) (clientX - rectLeft, clientY - rectTop)"
  by (simp add: handleWheel_changed [OF assms] screenToWorld_def)

text \<open>
  Where the world point of the cursor is drawn after a wheel step, on one axis: \<open>p\<close>
  is the cursor, \<open>a\<close> the old pan, \<open>z\<close> the old zoom and \<open>c\<close> the new one.
\<close>

lemma wheel_axis_drawn_point:
  fixes p a z c :: real
  assumes "z \<noteq> 0" and "c \<noteq> 0" and "c \<noteq> z"
  shows "((p - a) / z) * c + (p / c - (p / z - a)) = p \<longleftrightarrow> p * (c - 1) = a * c"
proof -
  have "((p - a) / z) * c + (p / c - (p / z - a)) - p
          = (c - z) * (p * (c - 1) - a * c) / (z * c)"
    using assms by (simp add: field_simps)
  then have "((p - a) / z) * c + (p / c - (p / z - a)) - p = 0 \<longleftrightarrow> p * (c - 1) - a * c = 0"
    using assms by simp
  then show ?thesis
    by simp
qed

lemma wheel_axis_drawn_point_handler:
  fixes p a z c :: real
  assumes "z \<noteq> 0" and "c \<noteq> 0" and "c \<noteq> 1"
  shows "(p / z - a) * c + (p / c - (p / z - a)) = p \<longleftrightarrow> p * (c - z) = a * z * c"
proof -
  have "(p / z - a) * c + (p / c - (p / z - a)) - p
          = (c - 1) * (p * (c - z) - a * z * c) / (z * c)"
    using assms by (simp add: field_simps)
  then have "(p / z - a) * c + (p / c - (p / z - a)) - p = 0 \<longleftrightarrow> p * (c - z) - a * z * c = 0"
    using assms by simp
  then show ?thesis
    by simp
qed

text \<open>
  C2 fails on the code. For a transform with zoom between 0.1 and 10 and a wheel event
  that changes the zoom to \<open>c\<close>, the world point drawn under the cursor \<open>p\<close> before
  the event is drawn at \<open>p\<close> again afterwards only when \<open>p * (c - 1) = pan * c\<close> on
  both axes, so at one point of the screen at most; the same holds for the world point
  that the handler computes (\<open>mouseXWorld\<close>, \<open>mouseYWorld\<close>), which is drawn at
  \<open>p\<close> only when \<open>p * (c - zoom) = pan * zoom * c\<close> or \<open>c = 1\<close>. The handler
  solves for the new pan with its own conversion, which is not the one the page draws
  with.
\<close>

theorem wheel_moves_cursor_point:
  assumes "0.1 \<le> zoom (canvasTransform s)" and "zoom (canvasTransform s) \<le> 10"
    and "clampedZoom deltaY (zoom (canvasTransform s)) \<noteq> zoom (canvasTransform s)"
  shows "(styleTransform (canvasTransform (handleWheel deltaY clientX clientY rectLeft rectTop s))
            (styleInverse (canvasTransform s) (clientX - rectLeft, clientY - rectTop))
          = (clientX - rectLeft, clientY - rectTop)
        \<longleftrightarrow>
          (clientX - rectLeft) * (clampedZoom deltaY (zoom (canvasTransform s)) - 1)
            = panX (canvasTransform s) * clampedZoom deltaY (zoom (canvasTransform s))
          \<and> (clientY - rectTop) * (clampedZoom deltaY (zoom (canvasTransform s)) - 1)
            = panY (canvasTransform s) * clampedZoom deltaY (zoom (canvasTransform s)))
       \<and> (clampedZoom deltaY (zoom (canvasTransform s)) \<noteq> 1 \<longrightarrow>
          (styleTransform (canvasTransform (handleWheel deltaY clientX clientY rectLeft rectTop s))
             (screenToWorld (canvasTransform s) (clientX - rectLeft, clientY - rectTop))
           = (clientX - rectLeft, clientY - rectTop)
         \<longleftrightarrow>
           (clientX - rectLeft)
               * (clampedZoom deltaY (zoom (canvasTransform s)) - zoom (canvasTransform s))
             = panX (canvasTransform s) * zoom (canvasTransform s)
               * clampedZoom deltaY (zoom (canvasTransform s))
           \<and> (clientY - rectTop)
               * (clampedZoom deltaY (zoom (canvasTransform s)) - zoom (canvasTransform s))
             = panY (canvasTransform s) * zoom (canvasTransform s)
               * clampedZoom deltaY (zoom (canvasTransform s))))"
proof -
  define c where "c = clampedZoom deltaY (zoom (canvasTransform s))"
  define z where "z = zoom (canvasTransform s)"
  have z: "z \<noteq> 0"
    using assms(1) by (simp add: z_def)
  have c: "c \<noteq> 0"
    using clampedZoom_pos [of deltaY "zoom (canvasTransform s)"] by (simp add: c_def)
  have cz: "c \<noteq> z"
    using assms(3) by (simp add: c_def z_def)
  have t: "canvasTransform (handleWheel deltaY clientX clientY rectLeft rectTop s) =
       \<lparr> panX = (clientX - rectLeft) / c - ((clientX - rectLeft) / z - panX (canvasTransform s)),
         panY = (clientY - rectTop) / c - ((clientY - rectTop) / z - panY (canvasTransform s)),
         zoom = c \<rparr>"
    unfolding c_def z_def by (rule handleWheel_changed [OF assms(3)])
  define px where "px = clientX - rectLeft"
  define py where "py = clientY - rectTop"
  have inv: "styleInverse (canvasTransform s) (px, py)
      = ((px - panX (canvasTransform s)) / z, (py - panY (canvasTransform s)) / z)"
    by (simp add: styleInverse_def z_def)
  have own: "screenToWorld (canvasTransform s) (px, py)
      = (px / z - panX (canvasTransform s), py / z - panY (canvasTransform s))"
    by (simp add: screenToWorld_def z_def)
  have first: "styleTransform (canvasTransform (handleWheel deltaY clientX clientY rectLeft rectTop s))
        (styleInverse (canvasTransform s) (px, py)) = (px, py)
      \<longleftrightarrow> px * (c - 1) = panX (canvasTransform s) * c \<and> py * (c - 1) = panY (canvasTransform s) * c"
    unfolding t inv
    using wheel_axis_drawn_point [OF z c cz, of px "panX (canvasTransform s)"]
      wheel_axis_drawn_point [OF z c cz, of py "panY (canvasTransform s)"]
    by (simp add: styleTransform_def px_def py_def)
  have second: "styleTransform (canvasTransform (handleWheel deltaY clientX clientY rectLeft rectTop s))
        (screenToWorld (canvasTransform s) (px, py)) = (px, py)
      \<longleftrightarrow> px * (c - z) = panX (canvasTransform s) * z * c
        \<and> py * (c - z) = panY (canvasTransform s) * z * c" if "c \<noteq> 1"
    unfolding t own
    using wheel_axis_drawn_point_handler [OF z c that, of px "panX (canvasTransform s)"]
      wheel_axis_drawn_point_handler [OF z c that, of py "panY (canvasTransform s)"]
    by (simp add: styleTransform_def px_def py_def)
  show ?thesis
    using first second unfolding c_def z_def px_def py_def by blast
qed

theorem wheel_moves_cursor_point_witness:
  "0.1 \<le> zoom (canvasTransform session_start) \<and> zoom (canvasTransform session_start) \<le> 10
   \<and> clampedZoom (- 1) (zoom (canvasTransform session_start)) \<noteq> zoom (canvasTransform session_start)
   \<and> clampedZoom (- 1) (zoom (canvasTransform session_start)) \<noteq> 1
   \<and> canvasTransform session_start = \<lparr> panX = 0, panY = 0, zoom = 1 \<rparr>
   \<and> canvasTransform (handleWheel (- 1) 100 200 0 0 session_start)
       = \<lparr> panX = 100 / 1.15 - 100, panY = 200 / 1.15 - 200, zoom = 1.15 \<rparr>
   \<and> styleInverse (canvasTransform session_start) (100 - 0, 200 - 0) = (100, 200)
   \<and> screenToWorld (canvasTransform session_start) (100 - 0, 200 - 0) = (100, 200)
   \<and> styleTransform (canvasTransform (handleWheel (- 1) 100 200 0 0 session_start))
        (styleInverse (canvasTransform session_start) (100 - 0, 200 - 0))
      \<noteq> (100 - 0, 200 - 0)
   \<and> styleTransform (canvasTransform (handleWheel (- 1) 100 200 0 0 session_start))
        (screenToWorld (canvasTransform session_start) (100 - 0, 200 - 0))
      \<noteq> (100 - 0, 200 - 0)
   \<and> styleTransform (canvasTransform (handleWheel (- 1) 100 200 0 0 session_start)) (100, 200)
      = (100 * 1.15 + (100 / 1.15 - 100), 200 * 1.15 + (200 / 1.15 - 200))"
proof -
  have h: "0.1 \<le> zoom (canvasTransform session_start)" "zoom (canvasTransform session_start) \<le> 10"
    "clampedZoom (- 1) (zoom (canvasTransform session_start)) \<noteq> zoom (canvasTransform session_start)"
    by (simp_all add: clampedZoom_def requestedZoom_def)
  have c: "clampedZoom (- 1) (zoom (canvasTransform session_start)) = 1.15"
    by (simp add: clampedZoom_def requestedZoom_def)
  have c1: "clampedZoom (- 1) (zoom (canvasTransform session_start)) \<noteq> 1"
    unfolding c by simp
  have t: "canvasTransform (handleWheel (- 1) 100 200 0 0 session_start)
       = \<lparr> panX = 100 / 1.15 - 100, panY = 200 / 1.15 - 200, zoom = 1.15 \<rparr>"
    unfolding handleWheel_changed [OF h(3)] c by simp
  have i: "styleInverse (canvasTransform session_start) (100 - 0, 200 - 0) = (100, 200)"
    "screenToWorld (canvasTransform session_start) (100 - 0, 200 - 0) = (100, 200)"
    by (simp_all add: styleInverse_def screenToWorld_def)
  have n1: "\<not> ((100 - 0) * (clampedZoom (- 1) (zoom (canvasTransform session_start)) - 1)
        = panX (canvasTransform session_start) * clampedZoom (- 1) (zoom (canvasTransform session_start))
      \<and> (200 - 0) * (clampedZoom (- 1) (zoom (canvasTransform session_start)) - 1)
        = panY (canvasTransform session_start) * clampedZoom (- 1) (zoom (canvasTransform session_start)))"
    unfolding c by simp
  have n2: "\<not> ((100 - 0)
          * (clampedZoom (- 1) (zoom (canvasTransform session_start)) - zoom (canvasTransform session_start))
        = panX (canvasTransform session_start) * zoom (canvasTransform session_start)
          * clampedZoom (- 1) (zoom (canvasTransform session_start))
      \<and> (200 - 0)
          * (clampedZoom (- 1) (zoom (canvasTransform session_start)) - zoom (canvasTransform session_start))
        = panY (canvasTransform session_start) * zoom (canvasTransform session_start)
          * clampedZoom (- 1) (zoom (canvasTransform session_start)))"
    unfolding c by simp
  have m: "styleTransform (canvasTransform (handleWheel (- 1) 100 200 0 0 session_start))
        (styleInverse (canvasTransform session_start) (100 - 0, 200 - 0)) \<noteq> (100 - 0, 200 - 0)
     \<and> styleTransform (canvasTransform (handleWheel (- 1) 100 200 0 0 session_start))
        (screenToWorld (canvasTransform session_start) (100 - 0, 200 - 0)) \<noteq> (100 - 0, 200 - 0)"
    using n1 n2 c1
      wheel_moves_cursor_point [OF h, where clientX = 100 and rectLeft = 0
        and clientY = 200 and rectTop = 0]
    by blast
  have v: "styleTransform (canvasTransform (handleWheel (- 1) 100 200 0 0 session_start)) (100, 200)
      = (100 * 1.15 + (100 / 1.15 - 100), 200 * 1.15 + (200 / 1.15 - 200))"
    by (simp add: t styleTransform_def)
  show ?thesis
    using h c1 t i m v by simp
qed

text \<open>
  C3. The zoom after a wheel event is the old zoom times 1.15 (\<open>deltaY\<close> negative, wheel
  up) or divided by 1.15 (otherwise), clamped to the interval from 0.1 to 10: a request
  above 10 gives exactly 10, a request below 0.1 gives exactly 0.1. When the clamped zoom
  equals the old zoom the handler returns the state as it is (zoom, pan, pending timeouts
  and the debounce handle), in particular at zoom 10 on wheel up and at zoom 0.1 on wheel
  down.
\<close>

theorem wheel_zoom_clamped:
  "zoom (canvasTransform (handleWheel deltaY clientX clientY rectLeft rectTop s))
     = max 0.1 (min (if deltaY < 0 then zoom (canvasTransform s) * 1.15
                     else zoom (canvasTransform s) / 1.15) 10)
   \<and> (requestedZoom deltaY (zoom (canvasTransform s)) > 10 \<longrightarrow>
        zoom (canvasTransform (handleWheel deltaY clientX clientY rectLeft rectTop s)) = 10)
   \<and> (requestedZoom deltaY (zoom (canvasTransform s)) < 0.1 \<longrightarrow>
        zoom (canvasTransform (handleWheel deltaY clientX clientY rectLeft rectTop s)) = 0.1)
   \<and> (clampedZoom deltaY (zoom (canvasTransform s)) = zoom (canvasTransform s) \<longrightarrow>
        handleWheel deltaY clientX clientY rectLeft rectTop s = s)
   \<and> (zoom (canvasTransform s) = 10 \<and> deltaY < 0 \<longrightarrow>
        handleWheel deltaY clientX clientY rectLeft rectTop s = s)
   \<and> (zoom (canvasTransform s) = 0.1 \<and> \<not> deltaY < 0 \<longrightarrow>
        handleWheel deltaY clientX clientY rectLeft rectTop s = s)"
proof (intro conjI impI)
  show "zoom (canvasTransform (handleWheel deltaY clientX clientY rectLeft rectTop s))
          = max 0.1 (min (if deltaY < 0 then zoom (canvasTransform s) * 1.15
                          else zoom (canvasTransform s) / 1.15) 10)"
    by (simp only: handleWheel_zoom clampedZoom_def requestedZoom_def)
next
  assume "requestedZoom deltaY (zoom (canvasTransform s)) > 10"
  then have "clampedZoom deltaY (zoom (canvasTransform s)) = 10"
    by (simp add: clampedZoom_def)
  then show "zoom (canvasTransform (handleWheel deltaY clientX clientY rectLeft rectTop s)) = 10"
    by (simp only: handleWheel_zoom)
next
  assume "requestedZoom deltaY (zoom (canvasTransform s)) < 0.1"
  then have "clampedZoom deltaY (zoom (canvasTransform s)) = 0.1"
    by (simp add: clampedZoom_def)
  then show "zoom (canvasTransform (handleWheel deltaY clientX clientY rectLeft rectTop s)) = 0.1"
    by (simp only: handleWheel_zoom)
next
  assume "clampedZoom deltaY (zoom (canvasTransform s)) = zoom (canvasTransform s)"
  then show "handleWheel deltaY clientX clientY rectLeft rectTop s = s"
    by (rule handleWheel_unchanged)
next
  assume a: "zoom (canvasTransform s) = 10 \<and> deltaY < 0"
  then have "clampedZoom deltaY 10 = 10"
    by (simp add: clampedZoom_def requestedZoom_def)
  with a show "handleWheel deltaY clientX clientY rectLeft rectTop s = s"
    by (metis handleWheel_unchanged)
next
  assume a: "zoom (canvasTransform s) = 0.1 \<and> \<not> deltaY < 0"
  then have "clampedZoom deltaY 0.1 = 0.1"
    by (simp add: clampedZoom_def requestedZoom_def)
  with a show "handleWheel deltaY clientX clientY rectLeft rectTop s = s"
    by (metis handleWheel_unchanged)
qed

theorem wheel_zoom_clamped_witness:
  "requestedZoom (- 1) (zoom (canvasTransform (session_start\<lparr> canvasTransform := \<lparr> panX = 3, panY = 4, zoom = 9 \<rparr> \<rparr>))) > 10
   \<and> zoom (canvasTransform (handleWheel (- 1) 110 220 10 20
        (session_start\<lparr> canvasTransform := \<lparr> panX = 3, panY = 4, zoom = 9 \<rparr> \<rparr>))) = 10
   \<and> requestedZoom 1 (zoom (canvasTransform (session_start\<lparr> canvasTransform := \<lparr> panX = 3, panY = 4, zoom = 0.11 \<rparr> \<rparr>))) < 0.1
   \<and> zoom (canvasTransform (handleWheel 1 110 220 10 20
        (session_start\<lparr> canvasTransform := \<lparr> panX = 3, panY = 4, zoom = 0.11 \<rparr> \<rparr>))) = 0.1
   \<and> zoom (canvasTransform (session_start\<lparr> canvasTransform := \<lparr> panX = 3, panY = 4, zoom = 10 \<rparr> \<rparr>)) = 10
   \<and> clampedZoom (- 1) (zoom (canvasTransform (session_start\<lparr> canvasTransform := \<lparr> panX = 3, panY = 4, zoom = 10 \<rparr> \<rparr>)))
       = zoom (canvasTransform (session_start\<lparr> canvasTransform := \<lparr> panX = 3, panY = 4, zoom = 10 \<rparr> \<rparr>))
   \<and> handleWheel (- 1) 110 220 10 20 (session_start\<lparr> canvasTransform := \<lparr> panX = 3, panY = 4, zoom = 10 \<rparr> \<rparr>)
       = session_start\<lparr> canvasTransform := \<lparr> panX = 3, panY = 4, zoom = 10 \<rparr> \<rparr>
   \<and> zoom (canvasTransform (session_start\<lparr> canvasTransform := \<lparr> panX = 3, panY = 4, zoom = 0.1 \<rparr> \<rparr>)) = 0.1
   \<and> handleWheel 1 110 220 10 20 (session_start\<lparr> canvasTransform := \<lparr> panX = 3, panY = 4, zoom = 0.1 \<rparr> \<rparr>)
       = session_start\<lparr> canvasTransform := \<lparr> panX = 3, panY = 4, zoom = 0.1 \<rparr> \<rparr>"
proof -
  define sA where "sA = session_start\<lparr> canvasTransform := \<lparr> panX = 3, panY = 4, zoom = 9 \<rparr> \<rparr>"
  define sB where "sB = session_start\<lparr> canvasTransform := \<lparr> panX = 3, panY = 4, zoom = 0.11 \<rparr> \<rparr>"
  define sC where "sC = session_start\<lparr> canvasTransform := \<lparr> panX = 3, panY = 4, zoom = 10 \<rparr> \<rparr>"
  define sD where "sD = session_start\<lparr> canvasTransform := \<lparr> panX = 3, panY = 4, zoom = 0.1 \<rparr> \<rparr>"
  have h1: "requestedZoom (- 1) (zoom (canvasTransform sA)) > 10"
    by (simp add: requestedZoom_def sA_def)
  have h2: "requestedZoom 1 (zoom (canvasTransform sB)) < 0.1"
    by (simp add: requestedZoom_def sB_def)
  have h3: "zoom (canvasTransform sC) = 10"
    "clampedZoom (- 1) (zoom (canvasTransform sC)) = zoom (canvasTransform sC)"
    by (simp_all add: clampedZoom_def requestedZoom_def sC_def)
  have h4: "zoom (canvasTransform sD) = 0.1"
    by (simp add: sD_def)
  have n1: "(- 1::real) < 0" and n2: "\<not> (1::real) < 0" by simp_all
  have c1: "zoom (canvasTransform (handleWheel (- 1) 110 220 10 20 sA)) = 10"
    using h1 wheel_zoom_clamped [of "- 1" 110 220 10 20 sA] by (elim conjE) (rule mp)
  have c2: "zoom (canvasTransform (handleWheel 1 110 220 10 20 sB)) = 0.1"
    using h2 wheel_zoom_clamped [of 1 110 220 10 20 sB] by (elim conjE) (rule mp)
  have c3: "handleWheel (- 1) 110 220 10 20 sC = sC"
    using h3(1) n1 wheel_zoom_clamped [of "- 1" 110 220 10 20 sC] by (elim conjE) (rule mp, assumption, rule conjI)
  have c4: "handleWheel 1 110 220 10 20 sD = sD"
    using h4 n2 wheel_zoom_clamped [of 1 110 220 10 20 sD] by (elim conjE) (rule mp, assumption, rule conjI)
  show ?thesis
    using h1 h2 h3 h4 c1 c2 c3 c4 unfolding sA_def sB_def sC_def sD_def
    by (intro conjI)
qed

section \<open>Widget store merge\<close>

lemma spec_survivors_is_filter:
  "spec_survivors store batch = filter (\<lambda>nw. id_w nw \<notin> set (map id_w store)) batch"
  by (simp add: spec_survivors_def)

lemma elems_widgetStore_updater:
  "elems (widgetStore_updater fresh newWidgets current)
     = elems current @ spec_survivors (elems current) (elems newWidgets)"
  by (simp add: widgetStore_updater_def spec_survivors_def Let_def)

lemma widgetStore_updater_same:
  "spec_survivors (elems current) (elems newWidgets) = []
   \<Longrightarrow> widgetStore_updater fresh newWidgets current = current"
  by (simp add: widgetStore_updater_def spec_survivors_def Let_def)

lemma spec_survivors_none:
  "set (map id_w batch) \<subseteq> set (map id_w store) \<Longrightarrow> spec_survivors store batch = []"
  by (auto simp: spec_survivors_def filter_empty_conv)

text \<open>
  C4. The function that the debounced fetch passes to the store keeps the current
  widgets and appends, in the order of the batch, the incoming widgets whose id is not
  among the current ones. When every incoming id is already present it returns the
  current array itself (same address, same contents); when exactly \<open>k\<close> incoming widgets
  have an id that is not present, the store grows by exactly \<open>k\<close>.
\<close>

theorem merge_filters_and_appends:
  "elems (widgetStore_updater fresh newWidgets current)
     = elems current @ spec_survivors (elems current) (elems newWidgets)
   \<and> (set (map id_w (elems newWidgets)) \<subseteq> set (map id_w (elems current)) \<longrightarrow>
        widgetStore_updater fresh newWidgets current = current
        \<and> ref (widgetStore_updater fresh newWidgets current) = ref current)
   \<and> (length (filter (\<lambda>nw. id_w nw \<notin> set (map id_w (elems current))) (elems newWidgets)) = k \<longrightarrow>
        length (elems (widgetStore_updater fresh newWidgets current)) = length (elems current) + k)"
proof (intro conjI impI)
  show "elems (widgetStore_updater fresh newWidgets current)
     = elems current @ spec_survivors (elems current) (elems newWidgets)"
    by (rule elems_widgetStore_updater)
next
  assume "set (map id_w (elems newWidgets)) \<subseteq> set (map id_w (elems current))"
  then have "spec_survivors (elems current) (elems newWidgets) = []"
    by (rule spec_survivors_none)
  then show same: "widgetStore_updater fresh newWidgets current = current"
    by (rule widgetStore_updater_same)
  then show "ref (widgetStore_updater fresh newWidgets current) = ref current"
    by simp
next
  assume "length (filter (\<lambda>nw. id_w nw \<notin> set (map id_w (elems current))) (elems newWidgets)) = k"
  then show "length (elems (widgetStore_updater fresh newWidgets current)) = length (elems current) + k"
    by (simp add: elems_widgetStore_updater spec_survivors_is_filter)
qed

theorem merge_filters_and_appends_witness:
  "set (map id_w (elems \<lparr> ref = 8, elems = [\<lparr> id_w = ''b'', title_w = ''t3'', content_w = ''c'', x_w = 0, y_w = 0 \<rparr>] \<rparr>))
     \<subseteq> set (map id_w (elems \<lparr> ref = 7, elems =
          [\<lparr> id_w = ''a'', title_w = ''t1'', content_w = ''c'', x_w = 1, y_w = 2 \<rparr>,
           \<lparr> id_w = ''b'', title_w = ''t2'', content_w = ''c'', x_w = 3, y_w = 4 \<rparr>] \<rparr>))
   \<and> widgetStore_updater 9
        \<lparr> ref = 8, elems = [\<lparr> id_w = ''b'', title_w = ''t3'', content_w = ''c'', x_w = 0, y_w = 0 \<rparr>] \<rparr>
        \<lparr> ref = 7, elems =
          [\<lparr> id_w = ''a'', title_w = ''t1'', content_w = ''c'', x_w = 1, y_w = 2 \<rparr>,
           \<lparr> id_w = ''b'', title_w = ''t2'', content_w = ''c'', x_w = 3, y_w = 4 \<rparr>] \<rparr>
      = \<lparr> ref = 7, elems =
          [\<lparr> id_w = ''a'', title_w = ''t1'', content_w = ''c'', x_w = 1, y_w = 2 \<rparr>,
           \<lparr> id_w = ''b'', title_w = ''t2'', content_w = ''c'', x_w = 3, y_w = 4 \<rparr>] \<rparr>
   \<and> length (filter (\<lambda>nw. id_w nw \<notin> set (map id_w (elems \<lparr> ref = 7, elems =
          [\<lparr> id_w = ''a'', title_w = ''t1'', content_w = ''c'', x_w = 1, y_w = 2 \<rparr>,
           \<lparr> id_w = ''b'', title_w = ''t2'', content_w = ''c'', x_w = 3, y_w = 4 \<rparr>] \<rparr>)))
        (elems \<lparr> ref = 8, elems =
          [\<lparr> id_w = ''b'', title_w = ''t3'', content_w = ''c'', x_w = 0, y_w = 0 \<rparr>,
           \<lparr> id_w = ''c'', title_w = ''t4'', content_w = ''c'', x_w = 5, y_w = 6 \<rparr>,
           \<lparr> id_w = ''d'', title_w = ''t5'', content_w = ''c'', x_w = 7, y_w = 8 \<rparr>] \<rparr>)) = 2
   \<and> length (elems (widgetStore_updater 9
        \<lparr> ref = 8, elems =
          [\<lparr> id_w = ''b'', title_w = ''t3'', content_w = ''c'', x_w = 0, y_w = 0 \<rparr>,
           \<lparr> id_w = ''c'', title_w = ''t4'', content_w = ''c'', x_w = 5, y_w = 6 \<rparr>,
           \<lparr> id_w = ''d'', title_w = ''t5'', content_w = ''c'', x_w = 7, y_w = 8 \<rparr>] \<rparr>
        \<lparr> ref = 7, elems =
          [\<lparr> id_w = ''a'', title_w = ''t1'', content_w = ''c'', x_w = 1, y_w = 2 \<rparr>,
           \<lparr> id_w = ''b'', title_w = ''t2'', content_w = ''c'', x_w = 3, y_w = 4 \<rparr>] \<rparr>))
      = length (elems \<lparr> ref = 7, elems =
          [\<lparr> id_w = ''a'', title_w = ''t1'', content_w = ''c'', x_w = 1, y_w = 2 \<rparr>,
           \<lparr> id_w = ''b'', title_w = ''t2'', content_w = ''c'', x_w = 3, y_w = 4 \<rparr>] \<rparr>) + 2"
proof -
  define cur where "cur = \<lparr> ref = 7, elems =
          [\<lparr> id_w = ''a'', title_w = ''t1'', content_w = ''c'', x_w = 1, y_w = 2 \<rparr>,
           \<lparr> id_w = ''b'', title_w = ''t2'', content_w = ''c'', x_w = 3, y_w = 4 \<rparr>] \<rparr>"
  define old where "old = \<lparr> ref = 8, elems =
          [\<lparr> id_w = ''b'', title_w = ''t3'', content_w = ''c'', x_w = 0, y_w = 0 \<rparr>] \<rparr>"
  define mixed where "mixed = \<lparr> ref = 8, elems =
          [\<lparr> id_w = ''b'', title_w = ''t3'', content_w = ''c'', x_w = 0, y_w = 0 \<rparr>,
           \<lparr> id_w = ''c'', title_w = ''t4'', content_w = ''c'', x_w = 5, y_w = 6 \<rparr>,
           \<lparr> id_w = ''d'', title_w = ''t5'', content_w = ''c'', x_w = 7, y_w = 8 \<rparr>] \<rparr>"
  have h1: "set (map id_w (elems old)) \<subseteq> set (map id_w (elems cur))"
    by (simp add: old_def cur_def)
  have h2: "length (filter (\<lambda>nw. id_w nw \<notin> set (map id_w (elems cur))) (elems mixed)) = 2"
    by (simp add: mixed_def cur_def)
  have c1: "widgetStore_updater 9 old cur = cur"
    using h1 merge_filters_and_appends [of 9 old cur 0] by (elim conjE) (rule conjunct1, rule mp)
  have c2: "length (elems (widgetStore_updater 9 mixed cur)) = length (elems cur) + 2"
    using h2 merge_filters_and_appends [of 9 mixed cur 2] by (elim conjE) (rule mp)
  show ?thesis
    using h1 h2 c1 c2 unfolding cur_def old_def mixed_def by (intro conjI)
qed

section \<open>Mock network service\<close>

lemma fst_shouldSimulateError:
  "fst (shouldSimulateError errorRate rs) = (sample_value (shd rs) < errorRate)"
  by (simp add: shouldSimulateError_def Math_random_def)

lemma snd_shouldSimulateError:
  "snd (shouldSimulateError errorRate rs) = stl rs"
  by (simp add: shouldSimulateError_def Math_random_def)

lemma isl_fetchAllWidgets_timeout:
  "isl (fst (fetchAllWidgets_timeout toString36 errorRate fresh n px py z rs))
     = (sample_value (shd rs) < errorRate)"
  by (simp add: fetchAllWidgets_timeout_def shouldSimulateError_def Math_random_def
      case_prod_beta)

lemma isl_fetchAllWidgets:
  "isl (fst (fetchAllWidgets toString36 errorRate fresh n px py z rs))
     = (sample_value (shd (stl rs)) < errorRate)"
  by (simp add: fetchAllWidgets_def isl_fetchAllWidgets_timeout Math_random_def)

lemma isl_fetchWidgetData:
  "isl (fst (fetchWidgetData errorRate widgetId rs)) = (sample_value (shd (stl rs)) < errorRate)"
  by (simp add: fetchWidgetData_def shouldSimulateError_def Math_random_def case_prod_beta)

lemma isl_serviceOutcome:
  "isl (fst (serviceOutcome toString36 k s)) = (sample_value (shd (rng s)) < errorRate_s s)"
  by (simp add: serviceOutcome_def Let_def isl_fetchAllWidgets_timeout)

text \<open>The error rate of the service mirrors the store \<open>errorProbability\<close>.\<close>

lemma errorRate_mirrors_step:
  assumes "errorRate_s s = errorProbability s"
  shows "errorRate_s (step toString36 s e) = errorProbability (step toString36 s e)"
proof (cases e)
  case (ServiceTimeout k)
  then show ?thesis
    using assms
    by (simp add: serviceTimeout_def Let_def case_prod_beta page_onMount_resume_def
        fetchMoreWidgets_resume_def fetchWidgetsForCurrentView_resume_def
        split: caller.split sum.split)
qed (simp_all add: assms handleMouseDown_def handleMouseMove_def handleMouseUp_def
    handleWheel_alt handleResize_def updateViewportDimensions_def handleProbabilityChange_def
    setErrorProbability_def timerFires_def fetchWidgetsForCurrentView_def fetchMoreWidgets_def
    fetchAllWidgets_call_def Math_random_def Let_def)

lemma errorRate_mirrors_run:
  "errorRate_s s = errorProbability s
   \<Longrightarrow> errorRate_s (run toString36 s evs) = errorProbability (run toString36 s evs)"
  unfolding run_def
  by (induction evs arbitrary: s) (simp_all add: errorRate_mirrors_step)

lemma errorRate_mirrors_initial:
  "errorRate_s (initial_state rs clientWidth clientHeight innerWidth innerHeight)
     = errorProbability (initial_state rs clientWidth clientHeight innerWidth innerHeight)"
  by (simp add: initial_state_def page_onMount_def canvas_onMount_def
      updateViewportDimensions_def unmounted_state_def fetchAllWidgets_call_def
      Math_random_def Let_def)

text \<open>
  C6. A call of \<open>fetchAllWidgets\<close> or of \<open>fetchWidgetData\<close> rejects exactly when the
  draw of \<open>shouldSimulateError\<close> (the second sample of the call, after the latency) is
  below the error rate in force when the callback runs. With error rate 1 every call
  rejects and with error rate 0 none does, whatever the samples. In the application the
  error rate of the service is the value of the store \<open>errorProbability\<close> in every
  state reached, setting the probability to 1 or to 0 sets the rate to 1 or to 0, and the
  callback of a pending call rejects exactly when the next sample is below the current
  rate.
\<close>

theorem service_rejects_iff_draw:
  "isl (fst (fetchAllWidgets toString36 errorRate fresh n px py z rs))
     = fst (shouldSimulateError errorRate (snd (Math_random rs)))
   \<and> isl (fst (fetchWidgetData errorRate widgetId rs))
     = fst (shouldSimulateError errorRate (snd (Math_random rs)))
   \<and> fst (shouldSimulateError errorRate (snd (Math_random rs)))
     = (sample_value (fst (Math_random (snd (Math_random rs)))) < errorRate)
   \<and> isl (fst (fetchAllWidgets toString36 1 fresh n px py z rs))
   \<and> isl (fst (fetchWidgetData 1 widgetId rs))
   \<and> \<not> isl (fst (fetchAllWidgets toString36 0 fresh n px py z rs))
   \<and> \<not> isl (fst (fetchWidgetData 0 widgetId rs))
   \<and> isl (fst (serviceOutcome toString36 k s)) = (sample_value (shd (rng s)) < errorRate_s s)
   \<and> errorRate_s (setErrorProbability 1 s) = 1
   \<and> errorRate_s (setErrorProbability 0 s) = 0
   \<and> errorRate_s (run toString36
        (initial_state rs clientWidth clientHeight innerWidth innerHeight) evs)
     = errorProbability (run toString36
        (initial_state rs clientWidth clientHeight innerWidth innerHeight) evs)"
proof -
  have mirror: "errorRate_s (run toString36
        (initial_state rs clientWidth clientHeight innerWidth innerHeight) evs)
     = errorProbability (run toString36
        (initial_state rs clientWidth clientHeight innerWidth innerHeight) evs)"
    using errorRate_mirrors_initial by (rule errorRate_mirrors_run)
  show ?thesis
    using sample_value_range [of "shd (stl rs)"] mirror
    by (simp add: isl_fetchAllWidgets isl_fetchWidgetData fst_shouldSimulateError
        Math_random_def isl_serviceOutcome not_less setErrorProbability_def)
qed

section \<open>Effect of the handlers on the shared state\<close>

lemma random_element_in_set:
  assumes "arr \<noteq> []"
  shows "random_element arr r \<in> set arr"
proof -
  have n: "0 < real (length arr)"
    using assms by simp
  have "sample_value r * real (length arr) < 1 * real (length arr)"
    using sample_value_range [of r] n by (intro mult_strict_right_mono) simp_all
  then have "\<lfloor>sample_value r * real (length arr)\<rfloor> < int (length arr)"
    by (simp add: floor_less_iff)
  then have "nat \<lfloor>sample_value r * real (length arr)\<rfloor> < length arr"
    using n by linarith
  then show ?thesis
    by (simp add: random_element_def Math_floor_def)
qed

lemma message_simulateError: "message (fst (simulateError params rs)) \<noteq> []"
proof -
  have "random_element errorTypes (shd rs) \<in> set errorTypes"
    by (rule random_element_in_set) (simp add: errorTypes_def)
  then have "fst (snd (random_element errorTypes (shd rs))) \<noteq> []"
    by (auto simp: errorTypes_def)
  then show ?thesis
    by (simp add: simulateError_def Math_random_def Let_def case_prod_beta)
qed

lemma serviceOutcome_Inl_message:
  assumes "fst (serviceOutcome toString36 k s) = Inl e"
  shows "message e \<noteq> []"
proof -
  have "\<exists>p rs. e = fst (simulateError p rs)"
    using assms
    by (auto simp: serviceOutcome_def fetchAllWidgets_timeout_def Let_def case_prod_beta
        split: if_splits)
  then show ?thesis
    using message_simulateError by blast
qed

lemma length_fetchAllWidgets_loop:
  "length (fst (fetchAllWidgets_loop toString36 i n px py z rs acc)) = length acc + (n - i)"
proof (induction toString36 i n px py z rs acc rule: fetchAllWidgets_loop.induct)
  case (1 toString36 i n px py z rs acc)
  show ?case
  proof (cases "i < n")
    case True
    then show ?thesis
      using "1.IH" by (subst fetchAllWidgets_loop.simps) simp
  next
    case False
    then show ?thesis
      by (subst fetchAllWidgets_loop.simps) simp
  qed
qed

lemma serviceOutcome_Inr_length:
  assumes "fst (serviceOutcome toString36 k s) = Inr ws"
  shows "length (elems ws) = count_p (inFlight s ! k)"
  using assms
  by (auto simp: serviceOutcome_def fetchAllWidgets_timeout_def Let_def case_prod_beta
      length_fetchAllWidgets_loop split: if_splits)

lemma fetchWidgetsForCurrentView_loading:
  "isLoadingWidgets s \<Longrightarrow> fetchWidgetsForCurrentView s = s"
  by (simp add: fetchWidgetsForCurrentView_def)

lemma fetchWidgetsForCurrentView_idle:
  assumes "\<not> isLoadingWidgets s"
  shows "inFlight (fetchWidgetsForCurrentView s) = inFlight s @
           [\<lparr> origin = InteractionFetch, count_p = 1,
              currentPanX_p = (viewportWidth s / 2 / zoom (canvasTransform s)) - panX (canvasTransform s),
              currentPanY_p = (viewportHeight s / 2 / zoom (canvasTransform s)) - panY (canvasTransform s),
              currentZoom_p = zoom (canvasTransform s),
              latency_p = sample_value (shd (rng s)) * 1500 + 500 \<rparr>]"
    and "isLoadingWidgets (fetchWidgetsForCurrentView s)"
    and "widgets (fetchWidgetsForCurrentView s) = widgets s"
  using assms
  by (simp_all add: fetchWidgetsForCurrentView_def Let_def inFlight_fetchAllWidgets_call)

lemma fetchMoreWidgets_effect:
  "inFlight (fetchMoreWidgets innerWidth innerHeight s) = inFlight s @
     [\<lparr> origin = FetchMore, count_p = 3,
        currentPanX_p = - panX (canvasTransform s) + (innerWidth / 2 / zoom (canvasTransform s)),
        currentPanY_p = - panY (canvasTransform s) + (innerHeight / 2 / zoom (canvasTransform s)),
        currentZoom_p = zoom (canvasTransform s),
        latency_p = sample_value (shd (rng s)) * 1500 + 500 \<rparr>]"
  "isLoadingWidgets (fetchMoreWidgets innerWidth innerHeight s)"
  "widgets (fetchMoreWidgets innerWidth innerHeight s) = widgets s"
  by (simp_all add: fetchMoreWidgets_def Let_def inFlight_fetchAllWidgets_call)

lemma initial_state_effect:
  "inFlight (initial_state rs clientWidth clientHeight innerWidth innerHeight) =
     [\<lparr> origin = InitialLoad, count_p = 5,
        currentPanX_p = innerWidth / 2, currentPanY_p = innerHeight / 2,
        currentZoom_p = 1, latency_p = sample_value (shd rs) * 1500 + 500 \<rparr>]"
  "isLoadingWidgets (initial_state rs clientWidth clientHeight innerWidth innerHeight)"
  "widgets (initial_state rs clientWidth clientHeight innerWidth innerHeight) = \<lparr> ref = 0, elems = [] \<rparr>"
  by (simp_all add: initial_state_def page_onMount_def canvas_onMount_def
      updateViewportDimensions_def unmounted_state_def Let_def inFlight_fetchAllWidgets_call)

lemma user_handlers_keep [simp]:
  "inFlight (handleMouseDown b cx cy s) = inFlight s"
  "isLoadingWidgets (handleMouseDown b cx cy s) = isLoadingWidgets s"
  "widgets (handleMouseDown b cx cy s) = widgets s"
  "inFlight (handleMouseMove cx cy s) = inFlight s"
  "isLoadingWidgets (handleMouseMove cx cy s) = isLoadingWidgets s"
  "widgets (handleMouseMove cx cy s) = widgets s"
  "inFlight (handleMouseUp s) = inFlight s"
  "isLoadingWidgets (handleMouseUp s) = isLoadingWidgets s"
  "widgets (handleMouseUp s) = widgets s"
  "inFlight (handleWheel dY cx cy rl rt s) = inFlight s"
  "isLoadingWidgets (handleWheel dY cx cy rl rt s) = isLoadingWidgets s"
  "widgets (handleWheel dY cx cy rl rt s) = widgets s"
  "inFlight (handleResize cw ch s) = inFlight s"
  "isLoadingWidgets (handleResize cw ch s) = isLoadingWidgets s"
  "widgets (handleResize cw ch s) = widgets s"
  "inFlight (handleProbabilityChange p s) = inFlight s"
  "isLoadingWidgets (handleProbabilityChange p s) = isLoadingWidgets s"
  "widgets (handleProbabilityChange p s) = widgets s"
  by (simp_all add: handleMouseDown_def handleMouseMove_def handleMouseUp_def handleWheel_alt
      handleResize_def updateViewportDimensions_def handleProbabilityChange_def
      setErrorProbability_def Let_def)

lemma resume_keeps_inFlight [simp]:
  "inFlight (page_onMount_resume outcome s) = inFlight s"
  "inFlight (fetchMoreWidgets_resume outcome s) = inFlight s"
  "inFlight (fetchWidgetsForCurrentView_resume outcome s) = inFlight s"
  "timers (page_onMount_resume outcome s) = timers s"
  "timers (fetchMoreWidgets_resume outcome s) = timers s"
  "timers (fetchWidgetsForCurrentView_resume outcome s) = timers s"
  by (simp_all add: page_onMount_resume_def fetchMoreWidgets_resume_def
      fetchWidgetsForCurrentView_resume_def Let_def split: sum.split)

lemma resume_clears_loading [simp]:
  "\<not> isLoadingWidgets (page_onMount_resume outcome s)"
  "\<not> isLoadingWidgets (fetchMoreWidgets_resume outcome s)"
  "\<not> isLoadingWidgets (fetchWidgetsForCurrentView_resume outcome s)"
  by (simp_all add: page_onMount_resume_def fetchMoreWidgets_resume_def
      fetchWidgetsForCurrentView_resume_def Let_def split: sum.split)

lemma serviceTimeout_effect:
  "inFlight (serviceTimeout toString36 k s) = take k (inFlight s) @ drop (Suc k) (inFlight s)"
  "timers (serviceTimeout toString36 k s) = timers s"
  "\<not> isLoadingWidgets (serviceTimeout toString36 k s)"
  by (simp_all add: serviceTimeout_def Let_def case_prod_beta split: caller.split)

text \<open>The three ways an event can act on the calls in flight and on the loading flag.\<close>

lemma step_flight_cases:
  "(inFlight (step toString36 s e) = inFlight s
      \<and> isLoadingWidgets (step toString36 s e) = isLoadingWidgets s
      \<and> widgets (step toString36 s e) = widgets s)
   \<or> (\<exists>c. isLoadingWidgets s = False
          \<and> inFlight (step toString36 s e) = inFlight s @ [c]
          \<and> count_p c = batch_size (origin c)
          \<and> isLoadingWidgets (step toString36 s e)
          \<and> widgets (step toString36 s e) = widgets s)
   \<or> (\<exists>k. k < length (inFlight s) \<and> e = ServiceTimeout k
          \<and> inFlight (step toString36 s e) = take k (inFlight s) @ drop (Suc k) (inFlight s)
          \<and> isLoadingWidgets (step toString36 s e) = False)"
proof (cases e)
  case (TimerFires h)
  show ?thesis
  proof (cases "h \<in> set (timers s) \<and> \<not> isLoadingWidgets s")
    case True
    then have "\<not> isLoadingWidgets (s\<lparr> timers := removeAll h (timers s) \<rparr>)"
      by simp
    from fetchWidgetsForCurrentView_idle [OF this] True show ?thesis
      by (simp add: TimerFires timerFires_def)
  next
    case False
    then show ?thesis
      by (auto simp: TimerFires timerFires_def fetchWidgetsForCurrentView_def)
  qed
next
  case (ServiceTimeout k)
  then show ?thesis
    by (simp add: serviceTimeout_effect)
next
  case (ClickFetchMore innerWidth innerHeight)
  then show ?thesis
    by (simp add: fetchMoreWidgets_effect)
qed simp_all

lemma single_flight_step:
  assumes "single_flight s"
  shows "single_flight (step toString36 s e)"
  using assms step_flight_cases [of toString36 s e]
  by (auto simp: single_flight_def)

lemma single_flight_run:
  "single_flight s \<Longrightarrow> single_flight (run toString36 s evs)"
  unfolding run_def
  by (induction evs arbitrary: s) (simp_all add: single_flight_step)

lemma single_flight_initial:
  "single_flight (initial_state rs clientWidth clientHeight innerWidth innerHeight)"
  by (simp add: single_flight_def initial_state_effect)

lemma counts_ok_step:
  assumes "counts_ok s"
  shows "counts_ok (step toString36 s e)"
proof -
  have "list_all P (take k xs @ drop (Suc k) xs)" if "list_all P xs" for P k and xs :: "pending_call list"
    using that by (auto simp: list_all_iff dest: in_set_takeD in_set_dropD)
  then show ?thesis
    using assms step_flight_cases [of toString36 s e]
    by (auto simp: counts_ok_def)
qed

lemma counts_ok_run:
  "counts_ok s \<Longrightarrow> counts_ok (run toString36 s evs)"
  unfolding run_def
  by (induction evs arbitrary: s) (simp_all add: counts_ok_step)

lemma counts_ok_initial:
  "counts_ok (initial_state rs clientWidth clientHeight innerWidth innerHeight)"
  by (simp add: counts_ok_def initial_state_effect)

lemma serviceTimeout_widgets:
  "widgets (serviceTimeout toString36 k s) =
     (case fst (serviceOutcome toString36 k s) of
        Inl e \<Rightarrow> widgets s
      | Inr ws \<Rightarrow>
          (case origin (inFlight s ! k) of
             InitialLoad \<Rightarrow> ws
           | FetchMore \<Rightarrow> \<lparr> ref = Suc (nextRef s), elems = elems (widgets s) @ elems ws \<rparr>
           | InteractionFetch \<Rightarrow> widgetStore_updater (Suc (nextRef s)) ws (widgets s)))"
  by (simp add: serviceTimeout_def Let_def case_prod_beta page_onMount_resume_def
      fetchMoreWidgets_resume_def fetchWidgetsForCurrentView_resume_def
      split: caller.split sum.split)

lemma serviceTimeout_interaction_error:
  assumes "origin (inFlight s ! k) = InteractionFetch"
    and "fst (serviceOutcome toString36 k s) = Inl e"
  shows "apiError (serviceTimeout toString36 k s)
           = Some (''Interaction fetch failed: '' @ (if message e = [] then ''Unknown error'' else message e))"
  using assms
  by (simp add: serviceTimeout_def Let_def case_prod_beta fetchWidgetsForCurrentView_resume_def)

lemma timers_triggerDebouncedFetch:
  "timers (triggerDebouncedFetch s) =
     (case debounceTimer s of
        None \<Rightarrow> timers s
      | Some h \<Rightarrow> if h \<noteq> 0 then removeAll h (timers s) else timers s) @ [nextTimer s]"
  by (simp add: triggerDebouncedFetch_def setTimeout_def clearTimeout_def Let_def
      split: option.split)

text \<open>
  While a call is in flight and no callback of the service runs, the call stays in
  flight and the store keeps its value.
\<close>

lemma pending_call_waits:
  assumes "single_flight s" and "inFlight s = [c]" and "ServiceTimeout 0 \<notin> set evs"
  shows "inFlight (run toString36 s evs) = [c] \<and> widgets (run toString36 s evs) = widgets s"
  using assms
proof (induction evs arbitrary: s)
  case Nil
  then show ?case by (simp add: run_def)
next
  case (Cons e evs)
  have l: "isLoadingWidgets s"
    using Cons.prems(1,2) by (simp add: single_flight_def)
  have e0: "e \<noteq> ServiceTimeout 0"
    using Cons.prems(3) by auto
  have keep: "inFlight (step toString36 s e) = [c] \<and> widgets (step toString36 s e) = widgets s"
    using step_flight_cases [of toString36 s e] l e0 Cons.prems(2) by auto
  have sf: "single_flight (step toString36 s e)"
    using Cons.prems(1) by (rule single_flight_step)
  have "inFlight (run toString36 (step toString36 s e) evs) = [c]
        \<and> widgets (run toString36 (step toString36 s e) evs) = widgets (step toString36 s e)"
    using Cons.IH [OF sf] keep Cons.prems(3) by simp
  then show ?case
    using keep by (simp add: run_def)
qed

section \<open>Debounced fetch\<close>

text \<open>
  C5. When the debounce timeout fires while \<open>isLoadingWidgets\<close> is set,
  \<open>fetchWidgetsForCurrentView\<close> returns the state as it is: no call of the service is
  started, the flag is not written, and no timeout is set (the one that fired is gone
  and nothing replaces it). In every state the application reaches, at most one call of
  the service is in flight, so at most one that the debounce started.
\<close>

theorem debounce_skips_while_loading:
  "(isLoadingWidgets s \<longrightarrow> fetchWidgetsForCurrentView s = s)
   \<and> (isLoadingWidgets s \<and> h \<in> set (timers s) \<longrightarrow>
        step toString36 s (TimerFires h) = s\<lparr> timers := removeAll h (timers s) \<rparr>
        \<and> inFlight (step toString36 s (TimerFires h)) = inFlight s
        \<and> isLoadingWidgets (step toString36 s (TimerFires h))
        \<and> timers (step toString36 s (TimerFires h)) = removeAll h (timers s))
   \<and> length (interaction_fetches
        (run toString36 (initial_state rs clientWidth clientHeight innerWidth innerHeight) evs)) \<le> 1
   \<and> single_flight
        (run toString36 (initial_state rs clientWidth clientHeight innerWidth innerHeight) evs)"
proof -
  have sf: "single_flight
        (run toString36 (initial_state rs clientWidth clientHeight innerWidth innerHeight) evs)"
    using single_flight_initial by (rule single_flight_run)
  have "length (interaction_fetches
        (run toString36 (initial_state rs clientWidth clientHeight innerWidth innerHeight) evs))
      \<le> length (inFlight
        (run toString36 (initial_state rs clientWidth clientHeight innerWidth innerHeight) evs))"
    by (simp add: interaction_fetches_def)
  then have one: "length (interaction_fetches
        (run toString36 (initial_state rs clientWidth clientHeight innerWidth innerHeight) evs)) \<le> 1"
    using sf by (simp add: single_flight_def)
  show ?thesis
    using sf one
    by (simp add: fetchWidgetsForCurrentView_loading timerFires_def)
qed

theorem debounce_skips_while_loading_witness:
  "isLoadingWidgets (handleResize 1024 768 session_start)
   \<and> 1 \<in> set (timers (handleResize 1024 768 session_start))
   \<and> fetchWidgetsForCurrentView (handleResize 1024 768 session_start)
       = handleResize 1024 768 session_start
   \<and> inFlight (step render_half (handleResize 1024 768 session_start) (TimerFires 1))
       = inFlight session_start
   \<and> timers (step render_half (handleResize 1024 768 session_start) (TimerFires 1)) = []"
proof -
  have h: "isLoadingWidgets (handleResize 1024 768 session_start)"
    "1 \<in> set (timers (handleResize 1024 768 session_start))"
    by (simp_all add: handleResize_def timers_triggerDebouncedFetch updateViewportDimensions_def)
  have t: "removeAll 1 (timers (handleResize 1024 768 session_start)) = []"
    by (simp add: handleResize_def timers_triggerDebouncedFetch updateViewportDimensions_def)
  show ?thesis
    using h t
      debounce_skips_while_loading [of "handleResize 1024 768 session_start" 1 render_half]
    by simp
qed

text \<open>
  The counts: a fetch started by the debounce asks the service for one widget, the
  fetch-more button for three and the initial load for five; in every state the
  application reaches each call in flight carries the count of its caller, and the
  callback of a call started by the debounce makes the store at most one entry longer.
\<close>

lemma interaction_fetch_counts:
  "(\<not> isLoadingWidgets s \<longrightarrow>
      inFlight (fetchWidgetsForCurrentView s) = inFlight s @
        [\<lparr> origin = InteractionFetch, count_p = 1,
           currentPanX_p = (viewportWidth s / 2 / zoom (canvasTransform s)) - panX (canvasTransform s),
           currentPanY_p = (viewportHeight s / 2 / zoom (canvasTransform s)) - panY (canvasTransform s),
           currentZoom_p = zoom (canvasTransform s),
           latency_p = sample_value (shd (rng s)) * 1500 + 500 \<rparr>])
   \<and> count_p (last (inFlight (fetchMoreWidgets innerWidth innerHeight s))) = 3
   \<and> map count_p (inFlight (initial_state rs clientWidth clientHeight innerWidth innerHeight)) = [5]
   \<and> counts_ok (run toString36 (initial_state rs clientWidth clientHeight innerWidth innerHeight) evs)
   \<and> (k < length (inFlight (run toString36
            (initial_state rs clientWidth clientHeight innerWidth innerHeight) evs))
        \<and> origin (inFlight (run toString36
            (initial_state rs clientWidth clientHeight innerWidth innerHeight) evs) ! k)
          = InteractionFetch \<longrightarrow>
        count_p (inFlight (run toString36
            (initial_state rs clientWidth clientHeight innerWidth innerHeight) evs) ! k) = 1
        \<and> length (elems (widgets (step toString36 (run toString36
            (initial_state rs clientWidth clientHeight innerWidth innerHeight) evs) (ServiceTimeout k))))
          \<le> length (elems (widgets (run toString36
            (initial_state rs clientWidth clientHeight innerWidth innerHeight) evs))) + 1)"
proof -
  define r where "r = run toString36
    (initial_state rs clientWidth clientHeight innerWidth innerHeight) evs"
  have ok: "counts_ok r"
    unfolding r_def using counts_ok_initial by (rule counts_ok_run)
  have grow: "count_p (inFlight r ! k) = 1
      \<and> length (elems (widgets (step toString36 r (ServiceTimeout k))))
          \<le> length (elems (widgets r)) + 1"
    if k: "k < length (inFlight r)" and o: "origin (inFlight r ! k) = InteractionFetch"
  proof -
    have c: "count_p (inFlight r ! k) = 1"
      using ok k o by (simp add: counts_ok_def list_all_length)
    have "length (elems (widgets (serviceTimeout toString36 k r))) \<le> length (elems (widgets r)) + 1"
    proof (cases "fst (serviceOutcome toString36 k r)")
      case (Inl e)
      then show ?thesis by (simp add: serviceTimeout_widgets)
    next
      case (Inr ws)
      have "length (elems ws) = 1"
        using serviceOutcome_Inr_length [OF Inr] c by simp
      moreover have "length (spec_survivors (elems (widgets r)) (elems ws)) \<le> length (elems ws)"
        by (simp add: spec_survivors_def)
      ultimately show ?thesis
        using Inr o by (simp add: serviceTimeout_widgets elems_widgetStore_updater)
    qed
    then show ?thesis
      using c k by simp
  qed
  show ?thesis
    using ok grow fetchWidgetsForCurrentView_idle(1) [of s]
    unfolding r_def
    by (simp add: fetchMoreWidgets_effect initial_state_effect)
qed

lemma serviceTimeout_keeps [simp]:
  "nextTimer (serviceTimeout toString36 k s) = nextTimer s"
  "canvasTransform (serviceTimeout toString36 k s) = canvasTransform s"
  "viewportWidth (serviceTimeout toString36 k s) = viewportWidth s"
  "viewportHeight (serviceTimeout toString36 k s) = viewportHeight s"
  "errorRate_s (serviceTimeout toString36 k s) = errorRate_s s"
  "rng (serviceTimeout toString36 k s) = snd (serviceOutcome toString36 k s)"
  by (simp_all add: serviceTimeout_def Let_def case_prod_beta page_onMount_resume_def
      fetchMoreWidgets_resume_def fetchWidgetsForCurrentView_resume_def
      split: caller.split sum.split)

lemma debounceTimer_serviceTimeout:
  "debounceTimer (serviceTimeout toString36 k s) =
     (if origin (inFlight s ! k) = InteractionFetch then None else debounceTimer s)"
  by (simp add: serviceTimeout_def Let_def case_prod_beta page_onMount_resume_def
      fetchMoreWidgets_resume_def fetchWidgetsForCurrentView_resume_def
      split: caller.split sum.split)

lemma nextTimer_triggerDebouncedFetch [simp]:
  "nextTimer (triggerDebouncedFetch s) = Suc (nextTimer s)"
  "debounceTimer (triggerDebouncedFetch s) = Some (nextTimer s)"
  by (simp_all add: triggerDebouncedFetch_def setTimeout_def clearTimeout_def Let_def
      split: option.split)

lemma stl_half_samples [simp]: "stl half_samples = half_samples" "shd half_samples = mk_sample (1 / 2)"
  by (simp_all add: half_samples_def)

text \<open>With the constant generator of the example session the stream never changes.\<close>

lemma snd_spawnWidget: "snd (spawnWidget toString36 i px py z rs) = stl (stl (stl (stl (stl rs))))"
  by (simp add: spawnWidget_def Math_random_def Let_def)

lemma snd_loop_half_samples:
  "snd (fetchAllWidgets_loop toString36 i n px py z half_samples acc) = half_samples"
proof (induction "n - i" arbitrary: i acc)
  case 0
  then show ?case
    by (subst fetchAllWidgets_loop.simps) simp
next
  case (Suc d)
  then have "i < n" and "d = n - (i + 1)"
    by simp_all
  then show ?case
    using Suc.hyps(1) [of "i + 1"]
    by (subst fetchAllWidgets_loop.simps) (simp add: snd_spawnWidget)
qed

lemma snd_serviceOutcome_half_samples:
  "rng s = half_samples \<Longrightarrow> snd (serviceOutcome toString36 k s) = half_samples"
  by (simp add: serviceOutcome_def fetchAllWidgets_timeout_def shouldSimulateError_def
      simulateError_def Math_random_def Let_def case_prod_beta snd_loop_half_samples)

lemma rng_step_half_samples:
  assumes "rng s = half_samples"
  shows "rng (step toString36 s e) = half_samples"
proof (cases e)
  case (ServiceTimeout k)
  then show ?thesis
    using assms by (simp add: snd_serviceOutcome_half_samples)
qed (simp_all add: assms handleMouseDown_def handleMouseMove_def handleMouseUp_def
    handleWheel_alt handleResize_def updateViewportDimensions_def handleProbabilityChange_def
    setErrorProbability_def timerFires_def fetchWidgetsForCurrentView_def fetchMoreWidgets_def
    fetchAllWidgets_call_def Math_random_def Let_def)

lemma rng_run_half_samples:
  "rng s = half_samples \<Longrightarrow> rng (run toString36 s evs) = half_samples"
  unfolding run_def
  by (induction evs arbitrary: s) (simp_all add: rng_step_half_samples)

section \<open>Rejected fetches\<close>

lemma interaction_rejection_step:
  assumes "k < length (inFlight s)" and "origin (inFlight s ! k) = InteractionFetch"
    and "fst (serviceOutcome toString36 k s) = Inl e"
  shows "widgets (step toString36 s (ServiceTimeout k)) = widgets s
       \<and> apiError (step toString36 s (ServiceTimeout k))
           = Some (''Interaction fetch failed: '' @ message e)
       \<and> isLoadingWidgets (step toString36 s (ServiceTimeout k)) = False
       \<and> inFlight (step toString36 s (ServiceTimeout k))
           = take k (inFlight s) @ drop (Suc k) (inFlight s)
       \<and> timers (step toString36 s (ServiceTimeout k)) = timers s"
  using assms serviceOutcome_Inl_message [OF assms(3)]
  by (simp add: serviceTimeout_widgets serviceTimeout_interaction_error serviceTimeout_effect)

text \<open>
  C7. When the callback of a call that the debounce started rejects with the error
  \<open>e\<close>, the store is the one before the callback, the error slot holds
  \<open>Interaction fetch failed:\<close> followed by the message of \<open>e\<close>, the loading flag is
  cleared, and nothing is retried: the call leaves the calls in flight, none is added,
  and no timeout is set. The store before the callback is also the store before the
  fetch: from any state the application reaches with the loading flag clear, once the
  debounce timeout has started the fetch, the store keeps its value until the callback
  of that fetch, and through its rejection.
\<close>

theorem interaction_fetch_rejection:
  "(k < length (inFlight s) \<and> origin (inFlight s ! k) = InteractionFetch
      \<and> fst (serviceOutcome toString36 k s) = Inl e \<longrightarrow>
        widgets (step toString36 s (ServiceTimeout k)) = widgets s
      \<and> apiError (step toString36 s (ServiceTimeout k))
          = Some (''Interaction fetch failed: '' @ message e)
      \<and> isLoadingWidgets (step toString36 s (ServiceTimeout k)) = False
      \<and> inFlight (step toString36 s (ServiceTimeout k))
          = take k (inFlight s) @ drop (Suc k) (inFlight s)
      \<and> timers (step toString36 s (ServiceTimeout k)) = timers s)
   \<and> (s0 = run toString36 (initial_state rs clientWidth clientHeight innerWidth innerHeight) evs0
      \<and> isLoadingWidgets s0 = False \<and> h \<in> set (timers s0)
      \<and> s2 = run toString36 (step toString36 s0 (TimerFires h)) evs
      \<and> ServiceTimeout 0 \<notin> set evs
      \<and> fst (serviceOutcome toString36 0 s2) = Inl e2 \<longrightarrow>
        map origin (inFlight s2) = [InteractionFetch]
      \<and> widgets (step toString36 s2 (ServiceTimeout 0)) = widgets s0
      \<and> apiError (step toString36 s2 (ServiceTimeout 0))
          = Some (''Interaction fetch failed: '' @ message e2)
      \<and> isLoadingWidgets (step toString36 s2 (ServiceTimeout 0)) = False
      \<and> inFlight (step toString36 s2 (ServiceTimeout 0)) = []
      \<and> timers (step toString36 s2 (ServiceTimeout 0)) = timers s2)"
proof (rule conjI)
  show "k < length (inFlight s) \<and> origin (inFlight s ! k) = InteractionFetch
      \<and> fst (serviceOutcome toString36 k s) = Inl e \<longrightarrow>
        widgets (step toString36 s (ServiceTimeout k)) = widgets s
      \<and> apiError (step toString36 s (ServiceTimeout k))
          = Some (''Interaction fetch failed: '' @ message e)
      \<and> isLoadingWidgets (step toString36 s (ServiceTimeout k)) = False
      \<and> inFlight (step toString36 s (ServiceTimeout k))
          = take k (inFlight s) @ drop (Suc k) (inFlight s)
      \<and> timers (step toString36 s (ServiceTimeout k)) = timers s"
    using interaction_rejection_step [of k s toString36 e] by blast
next
  have "map origin (inFlight s2) = [InteractionFetch]
      \<and> widgets (step toString36 s2 (ServiceTimeout 0)) = widgets s0
      \<and> apiError (step toString36 s2 (ServiceTimeout 0))
          = Some (''Interaction fetch failed: '' @ message e2)
      \<and> isLoadingWidgets (step toString36 s2 (ServiceTimeout 0)) = False
      \<and> inFlight (step toString36 s2 (ServiceTimeout 0)) = []
      \<and> timers (step toString36 s2 (ServiceTimeout 0)) = timers s2"
    if a: "s0 = run toString36 (initial_state rs clientWidth clientHeight innerWidth innerHeight) evs0
      \<and> isLoadingWidgets s0 = False \<and> h \<in> set (timers s0)
      \<and> s2 = run toString36 (step toString36 s0 (TimerFires h)) evs
      \<and> ServiceTimeout 0 \<notin> set evs
      \<and> fst (serviceOutcome toString36 0 s2) = Inl e2"
  proof -
    define s1 where "s1 = step toString36 s0 (TimerFires h)"
    from a [folded s1_def] have a1: "s0 = run toString36
        (initial_state rs clientWidth clientHeight innerWidth innerHeight) evs0"
      and a2: "\<not> isLoadingWidgets s0" and a3: "h \<in> set (timers s0)"
      and a4: "s2 = run toString36 s1 evs" and a5: "ServiceTimeout 0 \<notin> set evs"
      and a6: "fst (serviceOutcome toString36 0 s2) = Inl e2"
      by blast+
    have sf0: "single_flight s0"
      unfolding a1 using single_flight_initial by (rule single_flight_run)
    then have e0: "inFlight s0 = []"
      using a2 by (auto simp: single_flight_def)
    have idle: "\<not> isLoadingWidgets (s0\<lparr> timers := removeAll h (timers s0) \<rparr>)"
      using a2 by simp
    obtain c where c: "inFlight s1 = [c]" "origin c = InteractionFetch" "widgets s1 = widgets s0"
      using fetchWidgetsForCurrentView_idle [OF idle] a3 e0
      by (simp add: s1_def timerFires_def)
    have sf1: "single_flight s1"
      unfolding s1_def using sf0 by (rule single_flight_step)
    have w: "inFlight s2 = [c] \<and> widgets s2 = widgets s1"
      unfolding a4 using sf1 c(1) a5 by (rule pending_call_waits)
    have r: "widgets (step toString36 s2 (ServiceTimeout 0)) = widgets s2
         \<and> apiError (step toString36 s2 (ServiceTimeout 0))
             = Some (''Interaction fetch failed: '' @ message e2)
         \<and> isLoadingWidgets (step toString36 s2 (ServiceTimeout 0)) = False
         \<and> inFlight (step toString36 s2 (ServiceTimeout 0))
             = take 0 (inFlight s2) @ drop (Suc 0) (inFlight s2)
         \<and> timers (step toString36 s2 (ServiceTimeout 0)) = timers s2"
      using interaction_rejection_step [of 0 s2 toString36 e2] w c(2) a6 by simp
    show ?thesis
      using r w c by simp
  qed
  then show "s0 = run toString36 (initial_state rs clientWidth clientHeight innerWidth innerHeight) evs0
      \<and> isLoadingWidgets s0 = False \<and> h \<in> set (timers s0)
      \<and> s2 = run toString36 (step toString36 s0 (TimerFires h)) evs
      \<and> ServiceTimeout 0 \<notin> set evs
      \<and> fst (serviceOutcome toString36 0 s2) = Inl e2 \<longrightarrow>
        map origin (inFlight s2) = [InteractionFetch]
      \<and> widgets (step toString36 s2 (ServiceTimeout 0)) = widgets s0
      \<and> apiError (step toString36 s2 (ServiceTimeout 0))
          = Some (''Interaction fetch failed: '' @ message e2)
      \<and> isLoadingWidgets (step toString36 s2 (ServiceTimeout 0)) = False
      \<and> inFlight (step toString36 s2 (ServiceTimeout 0)) = []
      \<and> timers (step toString36 s2 (ServiceTimeout 0)) = timers s2"
    by blast
qed

lemma message_simulateError_half_samples:
  "message (fst (simulateError params half_samples)) = ''Resource Not Found''"
  by (simp add: simulateError_def Let_def random_element_def errorTypes_def Math_floor_def)

lemma serviceOutcome_half_samples_message:
  assumes "rng s = half_samples" and "fst (serviceOutcome toString36 k s) = Inl e"
  shows "message e = ''Resource Not Found''"
proof -
  have "\<exists>p. e = fst (simulateError p half_samples)"
    using assms
    by (auto simp: serviceOutcome_def fetchAllWidgets_timeout_def shouldSimulateError_def
        Let_def case_prod_beta split: if_splits)
  then show ?thesis
    using message_simulateError_half_samples by blast
qed

lemma errorRate_step:
  "errorRate_s (step toString36 s e) =
     (case e of ProbabilityChange p \<Rightarrow> if 0 \<le> p \<and> p \<le> 1 then p else errorRate_s s
      | _ \<Rightarrow> errorRate_s s)"
  by (cases e)
    (simp_all add: handleMouseDown_def handleMouseMove_def handleMouseUp_def
      handleWheel_alt handleResize_def updateViewportDimensions_def handleProbabilityChange_def
      setErrorProbability_def timerFires_def fetchWidgetsForCurrentView_def fetchMoreWidgets_def
      Let_def)

theorem interaction_fetch_rejection_witness:
  "isLoadingWidgets (run render_half (initial_state half_samples 800 600 800 600)
       [ProbabilityChange 1, ServiceTimeout 0, Resize 1024 768]) = False
   \<and> 1 \<in> set (timers (run render_half (initial_state half_samples 800 600 800 600)
       [ProbabilityChange 1, ServiceTimeout 0, Resize 1024 768]))
   \<and> ServiceTimeout 0 \<notin> set [MouseUp]
   \<and> isl (fst (serviceOutcome render_half 0
       (run render_half (step render_half
          (run render_half (initial_state half_samples 800 600 800 600)
             [ProbabilityChange 1, ServiceTimeout 0, Resize 1024 768]) (TimerFires 1)) [MouseUp])))
   \<and> map origin (inFlight
       (run render_half (step render_half
          (run render_half (initial_state half_samples 800 600 800 600)
             [ProbabilityChange 1, ServiceTimeout 0, Resize 1024 768]) (TimerFires 1)) [MouseUp]))
     = [InteractionFetch]
   \<and> widgets (step render_half
       (run render_half (step render_half
          (run render_half (initial_state half_samples 800 600 800 600)
             [ProbabilityChange 1, ServiceTimeout 0, Resize 1024 768]) (TimerFires 1)) [MouseUp])
       (ServiceTimeout 0))
     = widgets (run render_half (initial_state half_samples 800 600 800 600)
         [ProbabilityChange 1, ServiceTimeout 0, Resize 1024 768])
   \<and> apiError (step render_half
       (run render_half (step render_half
          (run render_half (initial_state half_samples 800 600 800 600)
             [ProbabilityChange 1, ServiceTimeout 0, Resize 1024 768]) (TimerFires 1)) [MouseUp])
       (ServiceTimeout 0))
     = Some ''Interaction fetch failed: Resource Not Found''
   \<and> isLoadingWidgets (step render_half
       (run render_half (step render_half
          (run render_half (initial_state half_samples 800 600 800 600)
             [ProbabilityChange 1, ServiceTimeout 0, Resize 1024 768]) (TimerFires 1)) [MouseUp])
       (ServiceTimeout 0)) = False
   \<and> inFlight (step render_half
       (run render_half (step render_half
          (run render_half (initial_state half_samples 800 600 800 600)
             [ProbabilityChange 1, ServiceTimeout 0, Resize 1024 768]) (TimerFires 1)) [MouseUp])
       (ServiceTimeout 0)) = []"
proof -
  define s0 where "s0 = run render_half (initial_state half_samples 800 600 800 600)
    [ProbabilityChange 1, ServiceTimeout 0, Resize 1024 768]"
  define s2 where "s2 = run render_half (step render_half s0 (TimerFires 1)) [MouseUp]"
  define e2 where "e2 = projl (fst (serviceOutcome render_half 0 s2))"
  have start: "initial_state half_samples 800 600 800 600 = session_start"
    by (simp add: session_start_def)
  have h1: "isLoadingWidgets s0 = False"
    unfolding s0_def start
    by (simp add: run_def serviceTimeout_effect handleProbabilityChange_def
        setErrorProbability_def)
  have h2: "1 \<in> set (timers s0)"
    unfolding s0_def start
    by (simp add: run_def serviceTimeout_effect handleProbabilityChange_def
        setErrorProbability_def handleResize_def updateViewportDimensions_def
        timers_triggerDebouncedFetch debounceTimer_serviceTimeout)
  have h3: "ServiceTimeout 0 \<notin> set [MouseUp]"
    by simp
  have r0: "rng s0 = half_samples"
    unfolding s0_def start by (rule rng_run_half_samples) simp
  have r2: "rng s2 = half_samples"
    unfolding s2_def by (intro rng_run_half_samples rng_step_half_samples r0)
  have p0: "errorRate_s s0 = 1"
    unfolding s0_def start by (simp add: run_def errorRate_step del: step.simps)
  have p2: "errorRate_s s2 = 1"
    unfolding s2_def by (simp add: run_def errorRate_step p0 del: step.simps)
  have h4: "isl (fst (serviceOutcome render_half 0 s2))"
    by (simp add: isl_serviceOutcome r2 p2)
  then have h5: "fst (serviceOutcome render_half 0 s2) = Inl e2"
    by (simp add: e2_def)
  have m: "message e2 = ''Resource Not Found''"
    using r2 h5 by (rule serviceOutcome_half_samples_message)
  have "map origin (inFlight s2) = [InteractionFetch]
      \<and> widgets (step render_half s2 (ServiceTimeout 0)) = widgets s0
      \<and> apiError (step render_half s2 (ServiceTimeout 0))
          = Some (''Interaction fetch failed: '' @ message e2)
      \<and> isLoadingWidgets (step render_half s2 (ServiceTimeout 0)) = False
      \<and> inFlight (step render_half s2 (ServiceTimeout 0)) = []"
    using h1 h2 h3 h5
      interaction_fetch_rejection [of _ _ render_half _ s0 half_samples 800 600 800 600
        "[ProbabilityChange 1, ServiceTimeout 0, Resize 1024 768]" 1 s2 "[MouseUp]" e2]
    unfolding s0_def [symmetric] s2_def [symmetric]
    by (simp add: s0_def [symmetric] s2_def [symmetric])
  then show ?thesis
    using h1 h2 h3 h4 m unfolding s0_def [symmetric] s2_def [symmetric] by simp
qed

section \<open>Uniqueness of widget identifiers\<close>

lemma interaction_merge_keeps_distinct:
  assumes "k < length (inFlight s)" and "origin (inFlight s ! k) = InteractionFetch"
    and "count_p (inFlight s ! k) = 1" and "distinct (store_ids s)"
  shows "distinct (store_ids (step toString36 s (ServiceTimeout k)))"
proof (cases "fst (serviceOutcome toString36 k s)")
  case (Inl err)
  then show ?thesis
    using assms by (simp add: store_ids_def serviceTimeout_widgets)
next
  case (Inr ws)
  have "length (elems ws) = 1"
    using serviceOutcome_Inr_length [OF Inr] assms(3) by simp
  then obtain w where w: "elems ws = [w]"
    by (cases "elems ws") simp_all
  show ?thesis
    using assms Inr w
    by (simp add: store_ids_def serviceTimeout_widgets elems_widgetStore_updater
        spec_survivors_def)
qed

text \<open>With the constant generator every widget of a batch gets the same identifier.\<close>

lemma ids_loop_half_samples:
  "map id_w (fst (fetchAllWidgets_loop toString36 i n px py z half_samples acc))
     = map id_w acc @ replicate (n - i) (generateRandomId toString36 (mk_sample (1 / 2)))"
proof (induction "n - i" arbitrary: i acc)
  case 0
  then show ?case
    by (subst fetchAllWidgets_loop.simps) simp
next
  case (Suc d)
  then have i: "i < n" and d: "d = n - (i + 1)" and n: "n - i = Suc (n - (i + 1))"
    by simp_all
  have sp: "snd (spawnWidget toString36 i px py z half_samples) = half_samples"
    by (simp add: snd_spawnWidget)
  have idw: "id_w (fst (spawnWidget toString36 i px py z half_samples))
      = generateRandomId toString36 (mk_sample (1 / 2))"
    by (simp add: spawnWidget_def Let_def)
  show ?case
    using Suc.hyps(1) [OF d] i
    by (subst fetchAllWidgets_loop.simps) (simp add: sp idw n replicate_app_Cons_same)
qed

lemma serviceOutcome_half_samples:
  assumes "rng s = half_samples"
  shows "isl (fst (serviceOutcome toString36 k s)) = (1 / 2 < errorRate_s s)"
    and "fst (serviceOutcome toString36 k s) = Inr ws \<Longrightarrow>
           map id_w (elems ws) = replicate (count_p (inFlight s ! k))
             (generateRandomId toString36 (mk_sample (1 / 2)))"
  using assms
  by (auto simp: isl_serviceOutcome serviceOutcome_def fetchAllWidgets_timeout_def
      shouldSimulateError_def Let_def case_prod_beta ids_loop_half_samples split: if_splits)

lemma generateRandomId_render_half [simp]: "generateRandomId render_half r = ''i''"
  by (simp add: generateRandomId_def render_half_def)

text \<open>
  C1, as stated, fails: when the generator returns the same sample for every draw, the
  five widgets of the initial load all carry the identifier \<open>i\<close>, and the store holds
  them all.
\<close>

theorem store_ids_not_distinct_counterexample:
  "\<not> distinct (store_ids (run render_half (initial_state half_samples 800 600 800 600)
        [ServiceTimeout 0]))"
proof -
  have r: "rng session_start = half_samples"
    by simp
  have "\<not> isl (fst (serviceOutcome render_half 0 session_start))"
    by (simp add: serviceOutcome_half_samples(1) [OF r])
  then obtain ws where ws: "fst (serviceOutcome render_half 0 session_start) = Inr ws"
    by (cases "fst (serviceOutcome render_half 0 session_start)") simp_all
  have "map id_w (elems ws) = replicate 5 ''i''"
    using serviceOutcome_half_samples(2) [OF r ws] by simp
  then have "store_ids (run render_half session_start [ServiceTimeout 0]) = replicate 5 ''i''"
    using ws by (simp add: run_def store_ids_def serviceTimeout_widgets)
  then show ?thesis
    by (simp add: session_start_def numeral_eq_Suc)
qed

section \<open>Uniqueness after fresh unfiltered batches\<close>

lemma map_id_spec_survivors:
  "map id_w (spec_survivors store batch)
     = filter (\<lambda>i. i \<notin> set (map id_w store)) (map id_w batch)"
  by (simp add: spec_survivors_def filter_map comp_def)

lemma store_ids_callback:
  assumes "k < length (inFlight s)"
  shows "store_ids (step toString36 s (ServiceTimeout k)) =
     (case origin (inFlight s ! k) of
        InitialLoad \<Rightarrow>
          (if isl (fst (serviceOutcome toString36 k s)) then store_ids s
           else batch_ids toString36 s (ServiceTimeout k))
      | FetchMore \<Rightarrow> store_ids s @ batch_ids toString36 s (ServiceTimeout k)
      | InteractionFetch \<Rightarrow>
          store_ids s @ filter (\<lambda>i. i \<notin> set (store_ids s))
            (batch_ids toString36 s (ServiceTimeout k)))"
  using assms
  by (cases "fst (serviceOutcome toString36 k s)")
    (simp_all add: store_ids_def batch_ids_def serviceTimeout_widgets
      elems_widgetStore_updater map_id_spec_survivors split: caller.split)

lemma store_ids_not_callback:
  assumes "\<not> (\<exists>k. e = ServiceTimeout k \<and> k < length (inFlight s))"
  shows "store_ids (step toString36 s e) = store_ids s"
proof -
  have "widgets (step toString36 s e) = widgets s"
    using assms step_flight_cases [of toString36 s e] by auto
  then show ?thesis
    by (simp add: store_ids_def)
qed

lemma store_ids_fresh_step:
  assumes "counts_ok s" and "distinct (store_ids s)" and "unfiltered_batch_fresh toString36 s e"
  shows "distinct (store_ids (step toString36 s e))"
proof (cases "\<exists>k. e = ServiceTimeout k \<and> k < length (inFlight s)")
  case False
  then show ?thesis
    using assms(2) by (simp add: store_ids_not_callback)
next
  case True
  then obtain k where k: "e = ServiceTimeout k" "k < length (inFlight s)"
    by blast
  show ?thesis
  proof (cases "origin (inFlight s ! k)")
    case InitialLoad
    then show ?thesis
      using assms(2,3) k
      by (simp add: store_ids_callback unfiltered_batch_fresh_def del: step.simps)
  next
    case FetchMore
    then show ?thesis
      using assms(3) k
      by (simp add: store_ids_callback unfiltered_batch_fresh_def del: step.simps)
  next
    case InteractionFetch
    have "count_p (inFlight s ! k) = 1"
      using assms(1) k(2) InteractionFetch by (simp add: counts_ok_def list_all_length)
    then show ?thesis
      unfolding k(1) using k(2) InteractionFetch assms(2)
      by (intro interaction_merge_keeps_distinct)
  qed
qed

lemma store_ids_fresh_run:
  "counts_ok s \<Longrightarrow> distinct (store_ids s) \<Longrightarrow> unfiltered_batches_fresh toString36 s evs
   \<Longrightarrow> distinct (store_ids (run toString36 s evs))"
proof (induction evs arbitrary: s)
  case Nil
  then show ?case by (simp add: run_def)
next
  case (Cons e evs)
  have "distinct (store_ids (run toString36 (step toString36 s e) evs))"
    using Cons.prems
    by (intro Cons.IH counts_ok_step store_ids_fresh_step) simp_all
  then show ?case
    by (simp add: run_def)
qed

text \<open>The draws of a generator given by a function of the position.\<close>

lemma draws_sel [simp]:
  "shd (smap g (fromN k)) = g k"
  "stl (smap g (fromN k)) = smap g (fromN (Suc k))"
  by simp_all

lemma spawnWidget_draws:
  "id_w (fst (spawnWidget toString36 i px py z (smap g (fromN k)))) = generateRandomId toString36 (g k)"
  "snd (spawnWidget toString36 i px py z (smap g (fromN k))) = smap g (fromN (k + 5))"
  by (simp_all add: spawnWidget_def Math_random_def Let_def eval_nat_numeral)

lemma loop_draws:
  "map id_w (fst (fetchAllWidgets_loop toString36 i n px py z (smap g (fromN k)) acc))
     = map id_w acc @ map (\<lambda>j. generateRandomId toString36 (g (k + 5 * j))) [0..<n - i]
   \<and> snd (fetchAllWidgets_loop toString36 i n px py z (smap g (fromN k)) acc)
     = smap g (fromN (k + 5 * (n - i)))"
proof (induction "n - i" arbitrary: i acc k)
  case 0
  then show ?case
    by (subst (1 2) fetchAllWidgets_loop.simps) simp
next
  case (Suc d)
  define m where "m = n - (i + 1)"
  define w where "w = fst (spawnWidget toString36 i px py z (smap g (fromN k)))"
  have i: "i < n" and d: "d = n - (i + 1)" and n: "n - i = Suc m"
    using Suc.hyps(2) by (simp_all add: m_def)
  have unfold: "fetchAllWidgets_loop toString36 i n px py z (smap g (fromN k)) acc
      = fetchAllWidgets_loop toString36 (i + 1) n px py z (smap g (fromN (k + 5))) (acc @ [w])"
    using i by (subst fetchAllWidgets_loop.simps) (simp add: spawnWidget_draws w_def)
  have w: "id_w w = generateRandomId toString36 (g k)"
    by (simp add: w_def spawnWidget_draws)
  have shift: "map (\<lambda>j. generateRandomId toString36 (g (k + 5 * j))) [0..<Suc m]
      = generateRandomId toString36 (g k)
        # map (\<lambda>j. generateRandomId toString36 (g (k + 5 + 5 * j))) [0..<m]"
    by (simp add: upt_conv_Cons map_Suc_upt [symmetric] add.assoc del: upt_Suc)
  have pos: "k + 5 + 5 * m = k + 5 * Suc m"
    by simp
  show ?case
    unfolding unfold n shift
    using Suc.hyps(1) [OF d, of "k + 5" "acc @ [w]"]
    by (simp only: m_def [symmetric] pos map_append list.map w append_assoc append.simps)
qed

lemma serviceOutcome_draws:
  assumes "rng s = smap g (fromN j)" and "\<not> sample_value (g j) < errorRate_s s"
    and "k < length (inFlight s)"
  shows "snd (serviceOutcome toString36 k s)
      = smap g (fromN (Suc j + 5 * count_p (inFlight s ! k)))"
    and "batch_ids toString36 s (ServiceTimeout k)
      = map (\<lambda>m. generateRandomId toString36 (g (Suc j + 5 * m))) [0..<count_p (inFlight s ! k)]"
    and "\<not> isl (fst (serviceOutcome toString36 k s))"
  using assms loop_draws [of toString36 0 "count_p (inFlight s ! k)" "currentPanX_p (inFlight s ! k)"
      "currentPanY_p (inFlight s ! k)" "currentZoom_p (inFlight s ! k)" g "Suc j" "[]"]
  by (simp_all add: batch_ids_def isl_serviceOutcome serviceOutcome_def fetchAllWidgets_timeout_def
      shouldSimulateError_def Math_random_def Let_def case_prod_beta)

lemma fraction36_numeral:
  "fraction36 (numeral n) v =
     (if v = 0 then []
      else digit36 (nat \<lfloor>v * 36\<rfloor>) # fraction36 (pred_numeral n) (v * 36 - real_of_int \<lfloor>v * 36\<rfloor>))"
  by (simp add: numeral_eq_Suc)

lemma digit36_values:
  "digit36 4 = CHR ''4''" "digit36 9 = CHR ''9''" "digit36 13 = CHR ''d''"
  "digit36 18 = CHR ''i''" "digit36 22 = CHR ''m''" "digit36 27 = CHR ''r''"
  by code_simp+

lemma radix36_values:
  "take 13 (drop 2 (radix36 (1 / 8))) = ''4i''"
  "take 13 (drop 2 (radix36 (1 / 4))) = ''9''"
  "take 13 (drop 2 (radix36 (3 / 8))) = ''di''"
  "take 13 (drop 2 (radix36 (5 / 8))) = ''mi''"
  "take 13 (drop 2 (radix36 (3 / 4))) = ''r''"
  "take 13 (drop 2 (radix36 (1 / 2))) = ''i''"
  by (simp_all add: radix36_def fraction36_numeral digit36_values)

lemma generateRandomId_radix36:
  "generateRandomId radix36 (mk_sample (1 / 8)) = ''4i''"
  "generateRandomId radix36 (mk_sample (1 / 4)) = ''9''"
  "generateRandomId radix36 (mk_sample (3 / 8)) = ''di''"
  "generateRandomId radix36 (mk_sample (5 / 8)) = ''mi''"
  "generateRandomId radix36 (mk_sample (3 / 4)) = ''r''"
  "generateRandomId radix36 (mk_sample (1 / 2)) = ''i''"
  by (simp_all add: generateRandomId_def radix36_values)

text \<open>
  C1, amended. In every state the application reaches, the store holds no two entries
  with the same identifier provided every batch that was stored unfiltered was fresh:
  the batch of the initial load had pairwise distinct identifiers, and each batch of the
  fetch-more button had pairwise distinct identifiers that were not in the store. The
  batches of the debounced fetch need no condition: the merge appends the incoming
  identifiers that are not in the store and drops the others, and it keeps a store
  without duplicates free of them. The initial load installs the batch it fetched as it
  is.
\<close>

theorem store_ids_distinct_if_unfiltered_fresh:
  "(unfiltered_batches_fresh toString36
        (initial_state rs clientWidth clientHeight innerWidth innerHeight) evs \<longrightarrow>
      distinct (store_ids (run toString36
        (initial_state rs clientWidth clientHeight innerWidth innerHeight) evs)))
   \<and> (k < length (inFlight (run toString36
          (initial_state rs clientWidth clientHeight innerWidth innerHeight) evs))
      \<and> origin (inFlight (run toString36
          (initial_state rs clientWidth clientHeight innerWidth innerHeight) evs) ! k)
        = InteractionFetch \<longrightarrow>
        store_ids (step toString36 (run toString36
          (initial_state rs clientWidth clientHeight innerWidth innerHeight) evs)
          (ServiceTimeout k))
        = store_ids (run toString36
            (initial_state rs clientWidth clientHeight innerWidth innerHeight) evs)
          @ filter (\<lambda>i. i \<notin> set (store_ids (run toString36
                (initial_state rs clientWidth clientHeight innerWidth innerHeight) evs)))
              (batch_ids toString36 (run toString36
                (initial_state rs clientWidth clientHeight innerWidth innerHeight) evs)
                (ServiceTimeout k))
      \<and> (distinct (store_ids (run toString36
            (initial_state rs clientWidth clientHeight innerWidth innerHeight) evs)) \<longrightarrow>
          distinct (store_ids (step toString36 (run toString36
            (initial_state rs clientWidth clientHeight innerWidth innerHeight) evs)
            (ServiceTimeout k)))))
   \<and> (k < length (inFlight (run toString36
          (initial_state rs clientWidth clientHeight innerWidth innerHeight) evs))
      \<and> origin (inFlight (run toString36
          (initial_state rs clientWidth clientHeight innerWidth innerHeight) evs) ! k)
        = InitialLoad
      \<and> fst (serviceOutcome toString36 k (run toString36
          (initial_state rs clientWidth clientHeight innerWidth innerHeight) evs)) = Inr ws
      \<longrightarrow>
        widgets (step toString36 (run toString36
          (initial_state rs clientWidth clientHeight innerWidth innerHeight) evs)
          (ServiceTimeout k)) = ws)"
proof -
  define s0 where "s0 = initial_state rs clientWidth clientHeight innerWidth innerHeight"
  define r where "r = run toString36 s0 evs"
  have empty: "distinct (store_ids s0)"
    by (simp add: s0_def store_ids_def initial_state_effect)
  have ok0: "counts_ok s0"
    unfolding s0_def by (rule counts_ok_initial)
  have first: "distinct (store_ids r)" if "unfiltered_batches_fresh toString36 s0 evs"
    unfolding r_def using ok0 empty that by (rule store_ids_fresh_run)
  have ok: "counts_ok r"
    unfolding r_def using ok0 by (rule counts_ok_run)
  have second: "store_ids (step toString36 r (ServiceTimeout k))
        = store_ids r @ filter (\<lambda>i. i \<notin> set (store_ids r)) (batch_ids toString36 r (ServiceTimeout k))
      \<and> (distinct (store_ids r) \<longrightarrow> distinct (store_ids (step toString36 r (ServiceTimeout k))))"
    if "k < length (inFlight r) \<and> origin (inFlight r ! k) = InteractionFetch"
  proof -
    have "count_p (inFlight r ! k) = 1"
      using ok that by (simp add: counts_ok_def list_all_length)
    then show ?thesis
      using that interaction_merge_keeps_distinct [of k r toString36]
      by (simp add: store_ids_callback del: step.simps)
  qed
  have third: "widgets (step toString36 r (ServiceTimeout k)) = ws"
    if "k < length (inFlight r) \<and> origin (inFlight r ! k) = InitialLoad
      \<and> fst (serviceOutcome toString36 k r) = Inr ws"
    using that by (simp add: serviceTimeout_widgets)
  show ?thesis
    using first second third unfolding r_def s0_def by blast
qed

theorem store_ids_distinct_if_unfiltered_fresh_witness:
  "unfiltered_batches_fresh radix36 (initial_state collision_samples 800 600 800 600)
     collision_events
   \<and> store_ids (run radix36 (initial_state collision_samples 800 600 800 600) collision_events)
       = [''4i'', ''9'', ''di'', ''mi'', ''r'', ''i'']
   \<and> distinct (store_ids (run radix36 (initial_state collision_samples 800 600 800 600)
       collision_events))
   \<and> map origin (inFlight (run radix36 (initial_state collision_samples 800 600 800 600) []))
       = [InitialLoad]
   \<and> batch_ids radix36 (run radix36 (initial_state collision_samples 800 600 800 600) [])
       (ServiceTimeout 0) = [''4i'', ''9'', ''di'', ''mi'', ''r'']
   \<and> widgets (step radix36 (run radix36 (initial_state collision_samples 800 600 800 600) [])
       (ServiceTimeout 0))
       = projr (fst (serviceOutcome radix36 0
           (run radix36 (initial_state collision_samples 800 600 800 600) [])))
   \<and> map origin (inFlight (run radix36 (initial_state collision_samples 800 600 800 600)
       [ServiceTimeout 0, Resize 1024 768, TimerFires 1])) = [InteractionFetch]
   \<and> store_ids (run radix36 (initial_state collision_samples 800 600 800 600)
       [ServiceTimeout 0, Resize 1024 768, TimerFires 1]) = [''4i'', ''9'', ''di'', ''mi'', ''r'']
   \<and> batch_ids radix36 (run radix36 (initial_state collision_samples 800 600 800 600)
       [ServiceTimeout 0, Resize 1024 768, TimerFires 1]) (ServiceTimeout 0) = [''9'']
   \<and> store_ids (step radix36 (run radix36 (initial_state collision_samples 800 600 800 600)
       [ServiceTimeout 0, Resize 1024 768, TimerFires 1]) (ServiceTimeout 0))
       = [''4i'', ''9'', ''di'', ''mi'', ''r'']
   \<and> map origin (inFlight (run radix36 (initial_state collision_samples 800 600 800 600)
       [ServiceTimeout 0, Resize 1024 768, TimerFires 1, ServiceTimeout 0, Resize 1024 768,
        TimerFires 2])) = [InteractionFetch]
   \<and> batch_ids radix36 (run radix36 (initial_state collision_samples 800 600 800 600)
       [ServiceTimeout 0, Resize 1024 768, TimerFires 1, ServiceTimeout 0, Resize 1024 768,
        TimerFires 2]) (ServiceTimeout 0) = [''i'']
   \<and> store_ids (step radix36 (run radix36 (initial_state collision_samples 800 600 800 600)
       [ServiceTimeout 0, Resize 1024 768, TimerFires 1, ServiceTimeout 0, Resize 1024 768,
        TimerFires 2]) (ServiceTimeout 0)) = [''4i'', ''9'', ''di'', ''mi'', ''r'', ''i'']"
proof -
  define g where "g = (\<lambda>n. mk_sample (collision_draw n))"
  define s0 where "s0 = initial_state collision_samples 800 600 800 600"
  define s1 where "s1 = step radix36 s0 (ServiceTimeout 0)"
  define s2 where "s2 = step radix36 s1 (Resize 1024 768)"
  define s3 where "s3 = step radix36 s2 (TimerFires 1)"
  define s4 where "s4 = step radix36 s3 (ServiceTimeout 0)"
  define s5 where "s5 = step radix36 s4 (Resize 1024 768)"
  define s6 where "s6 = step radix36 s5 (TimerFires 2)"
  define s7 where "s7 = step radix36 s6 (ServiceTimeout 0)"
  have gv: "g 1 = mk_sample (1 / 2)" "g 2 = mk_sample (1 / 8)" "g 7 = mk_sample (1 / 4)"
    "g 12 = mk_sample (3 / 8)" "g 17 = mk_sample (5 / 8)" "g 22 = mk_sample (3 / 4)"
    "g 28 = mk_sample (1 / 2)" "g 29 = mk_sample (1 / 4)"
    "g 35 = mk_sample (1 / 2)" "g 36 = mk_sample (1 / 2)"
    by (simp_all add: g_def collision_draw_def)
  have f0: "inFlight s0 = [\<lparr> origin = InitialLoad, count_p = 5, currentPanX_p = 800 / 2,
        currentPanY_p = 600 / 2, currentZoom_p = 1,
        latency_p = sample_value (shd collision_samples) * 1500 + 500 \<rparr>]"
    "isLoadingWidgets s0" "store_ids s0 = []" "rng s0 = smap g (fromN 1)"
    "errorRate_s s0 = 0.15" "timers s0 = []" "debounceTimer s0 = None" "nextTimer s0 = 1"
    unfolding s0_def
    by (simp_all add: initial_state_effect store_ids_def)
      (simp_all add: initial_state_def page_onMount_def canvas_onMount_def
        updateViewportDimensions_def unmounted_state_def fetchAllWidgets_call_def Let_def
        Math_random_def collision_samples_def g_def)
  have five: "[0..<5] = [0, 1, 2, 3, 4]"
    by code_simp
  have k0: "0 < length (inFlight s0)" "origin (inFlight s0 ! 0) = InitialLoad"
    "count_p (inFlight s0 ! 0) = 5"
    by (simp_all add: f0)
  have e0: "\<not> sample_value (g 1) < errorRate_s s0"
    unfolding gv f0(5) by simp
  have b0: "batch_ids radix36 s0 (ServiceTimeout 0) = [''4i'', ''9'', ''di'', ''mi'', ''r'']"
    unfolding serviceOutcome_draws(2) [OF f0(4) e0 k0(1)] k0(3)
    by (simp add: five g_def collision_draw_def generateRandomId_radix36)
  have o0: "\<not> isl (fst (serviceOutcome radix36 0 s0))"
    by (rule serviceOutcome_draws(3) [OF f0(4) e0 k0(1)])
  have f1: "inFlight s1 = []" "\<not> isLoadingWidgets s1"
    "store_ids s1 = [''4i'', ''9'', ''di'', ''mi'', ''r'']" "rng s1 = smap g (fromN 27)"
    "errorRate_s s1 = 0.15" "timers s1 = []" "debounceTimer s1 = None" "nextTimer s1 = 1"
    unfolding s1_def
    using store_ids_callback [OF k0(1), of radix36] o0 b0 serviceOutcome_draws(1) [OF f0(4) e0 k0(1), of radix36]
    by (simp_all add: k0 f0 serviceTimeout_effect debounceTimer_serviceTimeout)
  have f2: "inFlight s2 = []" "\<not> isLoadingWidgets s2"
    "store_ids s2 = [''4i'', ''9'', ''di'', ''mi'', ''r'']" "rng s2 = smap g (fromN 27)"
    "errorRate_s s2 = 0.15" "timers s2 = [1]" "debounceTimer s2 = Some 1" "nextTimer s2 = 2"
    using f1
    by (simp_all add: s2_def handleResize_def updateViewportDimensions_def store_ids_def
        timers_triggerDebouncedFetch)
  have f3: "map origin (inFlight s3) = [InteractionFetch]" "map count_p (inFlight s3) = [1]"
    "store_ids s3 = [''4i'', ''9'', ''di'', ''mi'', ''r'']" "rng s3 = smap g (fromN 28)"
    "errorRate_s s3 = 0.15" "timers s3 = []" "debounceTimer s3 = Some 1" "nextTimer s3 = 2"
    using f2
    by (simp_all add: s3_def timerFires_def fetchWidgetsForCurrentView_def Let_def store_ids_def
        inFlight_fetchAllWidgets_call)
      (simp_all add: fetchAllWidgets_call_def Math_random_def)
  have k3: "0 < length (inFlight s3)" "origin (inFlight s3 ! 0) = InteractionFetch"
    "count_p (inFlight s3 ! 0) = 1"
    using f3(1,2) by (cases "inFlight s3"; simp)+
  have n3: "length (inFlight s3) = 1"
    using arg_cong [OF f3(1), of length] by simp
  have st4: "s4 = serviceTimeout radix36 0 s3"
    using k3(1) by (simp add: s4_def)
  have e3: "\<not> sample_value (g 28) < errorRate_s s3"
    unfolding gv f3(5) by simp
  have b3: "batch_ids radix36 s3 (ServiceTimeout 0) = [''9'']"
    unfolding serviceOutcome_draws(2) [OF f3(4) e3 k3(1)] k3(3)
    by (simp add: g_def collision_draw_def generateRandomId_radix36)
  have c4: "store_ids s4 = [''4i'', ''9'', ''di'', ''mi'', ''r'']"
    unfolding s4_def using store_ids_callback [OF k3(1), of radix36]
    by (simp add: k3 b3 f3 del: step.simps)
  have f4: "inFlight s4 = []" "\<not> isLoadingWidgets s4"
    "store_ids s4 = [''4i'', ''9'', ''di'', ''mi'', ''r'']" "rng s4 = smap g (fromN 34)"
    "errorRate_s s4 = 0.15" "timers s4 = []" "debounceTimer s4 = None" "nextTimer s4 = 2"
    using c4 n3 serviceOutcome_draws(1) [OF f3(4) e3 k3(1), of radix36]
    by (simp_all add: st4 k3 f3 serviceTimeout_effect debounceTimer_serviceTimeout)
  have f5: "inFlight s5 = []" "\<not> isLoadingWidgets s5"
    "store_ids s5 = [''4i'', ''9'', ''di'', ''mi'', ''r'']" "rng s5 = smap g (fromN 34)"
    "errorRate_s s5 = 0.15" "timers s5 = [2]" "debounceTimer s5 = Some 2" "nextTimer s5 = 3"
    using f4
    by (simp_all add: s5_def handleResize_def updateViewportDimensions_def store_ids_def
        timers_triggerDebouncedFetch)
  have f6: "map origin (inFlight s6) = [InteractionFetch]" "map count_p (inFlight s6) = [1]"
    "store_ids s6 = [''4i'', ''9'', ''di'', ''mi'', ''r'']" "rng s6 = smap g (fromN 35)"
    "errorRate_s s6 = 0.15"
    using f5
    by (simp_all add: s6_def timerFires_def fetchWidgetsForCurrentView_def Let_def store_ids_def
        inFlight_fetchAllWidgets_call)
      (simp_all add: fetchAllWidgets_call_def Math_random_def)
  have k6: "0 < length (inFlight s6)" "origin (inFlight s6 ! 0) = InteractionFetch"
    "count_p (inFlight s6 ! 0) = 1"
    using f6(1,2) by (cases "inFlight s6"; simp)+
  have e6: "\<not> sample_value (g 35) < errorRate_s s6"
    unfolding gv f6(5) by simp
  have b6: "batch_ids radix36 s6 (ServiceTimeout 0) = [''i'']"
    unfolding serviceOutcome_draws(2) [OF f6(4) e6 k6(1)] k6(3)
    by (simp add: g_def collision_draw_def generateRandomId_radix36)
  have f7: "store_ids s7 = [''4i'', ''9'', ''di'', ''mi'', ''r'', ''i'']"
    unfolding s7_def
    using store_ids_callback [OF k6(1), of radix36] b6
    by (simp add: k6 f6 del: step.simps)
  have fresh: "unfiltered_batches_fresh radix36 s0 collision_events"
    unfolding collision_events_def unfiltered_batches_fresh.simps
    unfolding s1_def [symmetric] s2_def [symmetric] s3_def [symmetric] s4_def [symmetric]
      s5_def [symmetric] s6_def [symmetric] s7_def [symmetric]
    using k0 k3 k6 b0
    by (simp add: unfiltered_batch_fresh_def)
  have run0: "run radix36 s0 [] = s0"
    by (simp add: run_def)
  have run3: "run radix36 s0 [ServiceTimeout 0, Resize 1024 768, TimerFires 1] = s3"
    by (simp only: run_def foldl.simps s1_def s2_def s3_def)
  have run6: "run radix36 s0 [ServiceTimeout 0, Resize 1024 768, TimerFires 1,
      ServiceTimeout 0, Resize 1024 768, TimerFires 2] = s6"
    by (simp only: run_def foldl.simps s1_def s2_def s3_def s4_def s5_def s6_def)
  have run7: "run radix36 s0 collision_events = s7"
    by (simp only: collision_events_def run_def foldl.simps s1_def s2_def s3_def s4_def s5_def
        s6_def s7_def)
  have d7: "distinct (store_ids s7)"
    using store_ids_distinct_if_unfiltered_fresh
      [of radix36 collision_samples 800 600 800 600 collision_events] fresh
    unfolding s0_def [symmetric] run7 by blast
  have r0: "fst (serviceOutcome radix36 0 s0) = Inr (projr (fst (serviceOutcome radix36 0 s0)))"
    using o0 by (cases "fst (serviceOutcome radix36 0 s0)") simp_all
  have w1': "widgets (step radix36 s0 (ServiceTimeout 0))
      = projr (fst (serviceOutcome radix36 0 s0))"
    using store_ids_distinct_if_unfiltered_fresh
      [of radix36 collision_samples 800 600 800 600 "[]" 0
        "projr (fst (serviceOutcome radix36 0
           (run radix36 (initial_state collision_samples 800 600 800 600) [])))"]
      k0(1,2) r0
    unfolding s0_def [symmetric] run0 by blast
  have "store_ids (step radix36 s3 (ServiceTimeout 0))
      = store_ids s3 @ filter (\<lambda>i. i \<notin> set (store_ids s3)) (batch_ids radix36 s3 (ServiceTimeout 0))"
    using store_ids_distinct_if_unfiltered_fresh
      [of radix36 collision_samples 800 600 800 600
        "[ServiceTimeout 0, Resize 1024 768, TimerFires 1]" 0] k3(1,2)
    unfolding s0_def [symmetric] run3 by blast
  then have s4': "store_ids (step radix36 s3 (ServiceTimeout 0))
      = [''4i'', ''9'', ''di'', ''mi'', ''r'']"
    unfolding b3 f3(3) by simp
  have "store_ids (step radix36 s6 (ServiceTimeout 0))
      = store_ids s6 @ filter (\<lambda>i. i \<notin> set (store_ids s6)) (batch_ids radix36 s6 (ServiceTimeout 0))"
    using store_ids_distinct_if_unfiltered_fresh
      [of radix36 collision_samples 800 600 800 600
        "[ServiceTimeout 0, Resize 1024 768, TimerFires 1, ServiceTimeout 0, Resize 1024 768,
          TimerFires 2]" 0] k6(1,2)
    unfolding s0_def [symmetric] run6 by blast
  then have s7': "store_ids (step radix36 s6 (ServiceTimeout 0))
      = [''4i'', ''9'', ''di'', ''mi'', ''r'', ''i'']"
    unfolding b6 f6(3) by simp
  have i0: "map origin (inFlight s0) = [InitialLoad]"
    by (simp add: f0)
  show ?thesis
    unfolding s0_def [symmetric] run0 run3 run6 run7
    using fresh f7 d7 i0 b0 w1' f3(1,3) b3 s4' f6(1) b6 s7'
    by (intro conjI)
qed

section \<open>Debounce and view centre of the interaction fetch\<close>

lemma serviceTimeout_keeps_panning [simp]:
  "isPanning (serviceTimeout toString36 k s) = isPanning s"
  "lastPanX (serviceTimeout toString36 k s) = lastPanX s"
  "lastPanY (serviceTimeout toString36 k s) = lastPanY s"
  by (simp_all add: serviceTimeout_def Let_def case_prod_beta page_onMount_resume_def
      fetchMoreWidgets_resume_def fetchWidgetsForCurrentView_resume_def
      split: caller.split sum.split)

lemma fetchAllWidgets_call_keeps_panning [simp]:
  "nextTimer (fetchAllWidgets_call who n px py z s) = nextTimer s"
  "lastPanX (fetchAllWidgets_call who n px py z s) = lastPanX s"
  "lastPanY (fetchAllWidgets_call who n px py z s) = lastPanY s"
  by (simp_all add: fetchAllWidgets_call_def Math_random_def)

text \<open>
  C10 fails on the code in two places; the counts it names (1, 3 and 5) are right.

  The run below starts when the initial load has resolved: one wheel step at the corner
  of the viewport, then a drag. The timeout of the first mouse move expires and starts
  fetch A. The drag goes on (timeout 3), fetch A resolves and its \<open>finally\<close> block
  sets \<open>debounceTimer\<close> to null although timeout 3 is pending, so the next mouse move
  clears nothing and sets timeout 4: two timeouts are pending. Timeout 3 then expires and
  starts fetch B while timeout 4, set by the last event, is still pending: the fetch is
  not preceded by a quiet period.

  Fetch A asks for a widget at \<open>(viewportWidth / 2 / zoom - panX, ...)\<close>. With pan
  (100, 0) and zoom 1.15 the page draws that point at (385, 300), not at the centre
  (400, 300) of the viewport of 800 by 600; the world point at the centre is
  \<open>(300 / 1.15, 300 / 1.15)\<close>.
\<close>

theorem interaction_fetch_without_quiet_period:
  "canvasTransform (run render_half (initial_state half_samples 800 600 800 600)
       [ServiceTimeout 0, Wheel (- 1) 0 0 0 0, MouseDown 0 0 0, MouseMove 115 0, TimerFires 2])
     = \<lparr> panX = 100, panY = 0, zoom = 1.15 \<rparr>
   \<and> inFlight (run render_half (initial_state half_samples 800 600 800 600)
       [ServiceTimeout 0, Wheel (- 1) 0 0 0 0, MouseDown 0 0 0, MouseMove 115 0, TimerFires 2])
     = [\<lparr> origin = InteractionFetch, count_p = 1, currentPanX_p = 800 / 2 / 1.15 - 100,
          currentPanY_p = 600 / 2 / 1.15 - 0, currentZoom_p = 1.15, latency_p = 1250 \<rparr>]
   \<and> styleTransform \<lparr> panX = 100, panY = 0, zoom = 1.15 \<rparr>
        (800 / 2 / 1.15 - 100, 600 / 2 / 1.15 - 0) = (385, 300)
   \<and> styleInverse \<lparr> panX = 100, panY = 0, zoom = 1.15 \<rparr> (800 / 2, 600 / 2)
       = (300 / 1.15, 300 / 1.15)
   \<and> timers (run render_half (initial_state half_samples 800 600 800 600)
       [ServiceTimeout 0, Wheel (- 1) 0 0 0 0, MouseDown 0 0 0, MouseMove 115 0, TimerFires 2,
        MouseMove 230 0, ServiceTimeout 0, MouseMove 345 0]) = [3, 4]
   \<and> debounceTimer (run render_half (initial_state half_samples 800 600 800 600)
       [ServiceTimeout 0, Wheel (- 1) 0 0 0 0, MouseDown 0 0 0, MouseMove 115 0, TimerFires 2,
        MouseMove 230 0, ServiceTimeout 0, MouseMove 345 0]) = Some 4
   \<and> inFlight (run render_half (initial_state half_samples 800 600 800 600)
       [ServiceTimeout 0, Wheel (- 1) 0 0 0 0, MouseDown 0 0 0, MouseMove 115 0, TimerFires 2,
        MouseMove 230 0, ServiceTimeout 0, MouseMove 345 0]) = []
   \<and> map origin (inFlight (run render_half (initial_state half_samples 800 600 800 600)
       [ServiceTimeout 0, Wheel (- 1) 0 0 0 0, MouseDown 0 0 0, MouseMove 115 0, TimerFires 2,
        MouseMove 230 0, ServiceTimeout 0, MouseMove 345 0, TimerFires 3])) = [InteractionFetch]
   \<and> timers (run render_half (initial_state half_samples 800 600 800 600)
       [ServiceTimeout 0, Wheel (- 1) 0 0 0 0, MouseDown 0 0 0, MouseMove 115 0, TimerFires 2,
        MouseMove 230 0, ServiceTimeout 0, MouseMove 345 0, TimerFires 3]) = [4]"
proof -
  have start: "initial_state half_samples 800 600 800 600 = session_start"
    by (simp add: session_start_def)
  define s1 where "s1 = step render_half session_start (ServiceTimeout 0)"
  define s2 where "s2 = step render_half s1 (Wheel (- 1) 0 0 0 0)"
  define s3 where "s3 = step render_half s2 (MouseDown 0 0 0)"
  define s4 where "s4 = step render_half s3 (MouseMove 115 0)"
  define s5 where "s5 = step render_half s4 (TimerFires 2)"
  define s6 where "s6 = step render_half s5 (MouseMove 230 0)"
  define s7 where "s7 = step render_half s6 (ServiceTimeout 0)"
  define s8 where "s8 = step render_half s7 (MouseMove 345 0)"
  define s9 where "s9 = step render_half s8 (TimerFires 3)"
  have r: "rng s1 = half_samples" "rng s2 = half_samples" "rng s3 = half_samples"
    "rng s4 = half_samples"
    unfolding s1_def s2_def s3_def s4_def
    by (intro rng_step_half_samples, simp)+
  have f1: "inFlight s1 = []" "isLoadingWidgets s1 = False" "timers s1 = []"
    "debounceTimer s1 = None" "nextTimer s1 = 1"
    "canvasTransform s1 = \<lparr> panX = 0, panY = 0, zoom = 1 \<rparr>"
    "isPanning s1 = False" "viewportWidth s1 = 800" "viewportHeight s1 = 600"
    by (simp_all add: s1_def serviceTimeout_effect debounceTimer_serviceTimeout)
  have cz: "clampedZoom (- 1) 1 = 1.15"
    by (simp add: clampedZoom_def requestedZoom_def)
  have f2: "inFlight s2 = []" "isLoadingWidgets s2 = False" "timers s2 = [1]"
    "debounceTimer s2 = Some 1" "nextTimer s2 = 2"
    "canvasTransform s2 = \<lparr> panX = 0, panY = 0, zoom = 1.15 \<rparr>"
    "isPanning s2 = False" "viewportWidth s2 = 800" "viewportHeight s2 = 600"
    by (simp_all add: s2_def handleWheel_alt f1 cz timers_triggerDebouncedFetch)
  have f3: "inFlight s3 = []" "isLoadingWidgets s3 = False" "timers s3 = [1]"
    "debounceTimer s3 = Some 1" "nextTimer s3 = 2"
    "canvasTransform s3 = \<lparr> panX = 0, panY = 0, zoom = 1.15 \<rparr>"
    "isPanning s3 = True" "lastPanX s3 = 0" "lastPanY s3 = 0"
    "viewportWidth s3 = 800" "viewportHeight s3 = 600"
    by (simp_all add: s3_def handleMouseDown_def f2)
  have f4: "inFlight s4 = []" "isLoadingWidgets s4 = False" "timers s4 = [2]"
    "debounceTimer s4 = Some 2" "nextTimer s4 = 3"
    "canvasTransform s4 = \<lparr> panX = 100, panY = 0, zoom = 1.15 \<rparr>"
    "isPanning s4 = True" "lastPanX s4 = 115" "lastPanY s4 = 0"
    "viewportWidth s4 = 800" "viewportHeight s4 = 600"
    by (simp_all add: s4_def handleMouseMove_def Let_def f3 timers_triggerDebouncedFetch)
  have f5: "inFlight s5 = [\<lparr> origin = InteractionFetch, count_p = 1,
        currentPanX_p = 800 / 2 / 1.15 - 100, currentPanY_p = 600 / 2 / 1.15 - 0,
        currentZoom_p = 1.15, latency_p = 1250 \<rparr>]"
    "isLoadingWidgets s5 = True" "timers s5 = []"
    "debounceTimer s5 = Some 2" "nextTimer s5 = 3"
    "canvasTransform s5 = \<lparr> panX = 100, panY = 0, zoom = 1.15 \<rparr>"
    "isPanning s5 = True" "lastPanX s5 = 115" "lastPanY s5 = 0"
    by (simp_all add: s5_def timerFires_def fetchWidgetsForCurrentView_def Let_def f4 r
        inFlight_fetchAllWidgets_call)
  have f6: "length (inFlight s6) = 1" "origin (inFlight s6 ! 0) = InteractionFetch"
    "isLoadingWidgets s6 = True" "timers s6 = [3]"
    "debounceTimer s6 = Some 3" "nextTimer s6 = 4"
    "isPanning s6 = True" "lastPanX s6 = 230" "lastPanY s6 = 0"
    by (simp_all add: s6_def handleMouseMove_def Let_def f5 timers_triggerDebouncedFetch)
  have f7: "inFlight s7 = []" "isLoadingWidgets s7 = False" "timers s7 = [3]"
    "debounceTimer s7 = None" "nextTimer s7 = 4"
    "isPanning s7 = True" "lastPanX s7 = 230" "lastPanY s7 = 0"
    using f6(1)
    by (simp_all add: s7_def serviceTimeout_effect debounceTimer_serviceTimeout f6)
  have f8: "inFlight s8 = []" "isLoadingWidgets s8 = False" "timers s8 = [3, 4]"
    "debounceTimer s8 = Some 4"
    by (simp_all add: s8_def handleMouseMove_def Let_def f7 timers_triggerDebouncedFetch)
  have idle: "\<not> isLoadingWidgets (s8\<lparr> timers := removeAll 3 (timers s8) \<rparr>)"
    by (simp add: f8)
  have f9: "map origin (inFlight s9) = [InteractionFetch]" "timers s9 = [4]"
    using fetchWidgetsForCurrentView_idle(1) [OF idle]
    by (simp_all add: s9_def timerFires_def f8 fetchWidgetsForCurrentView_def Let_def)
  have run5: "run render_half session_start
      [ServiceTimeout 0, Wheel (- 1) 0 0 0 0, MouseDown 0 0 0, MouseMove 115 0, TimerFires 2] = s5"
    by (simp only: run_def foldl.simps s1_def s2_def s3_def s4_def s5_def)
  have run8: "run render_half session_start
      [ServiceTimeout 0, Wheel (- 1) 0 0 0 0, MouseDown 0 0 0, MouseMove 115 0, TimerFires 2,
       MouseMove 230 0, ServiceTimeout 0, MouseMove 345 0] = s8"
    by (simp only: run_def foldl.simps s1_def s2_def s3_def s4_def s5_def s6_def s7_def s8_def)
  have run9: "run render_half session_start
      [ServiceTimeout 0, Wheel (- 1) 0 0 0 0, MouseDown 0 0 0, MouseMove 115 0, TimerFires 2,
       MouseMove 230 0, ServiceTimeout 0, MouseMove 345 0, TimerFires 3] = s9"
    by (simp only: run_def foldl.simps s1_def s2_def s3_def s4_def s5_def s6_def s7_def s8_def
        s9_def)
  have draw: "styleTransform \<lparr> panX = 100, panY = 0, zoom = 1.15 \<rparr>
        (800 / 2 / 1.15 - 100, 600 / 2 / 1.15 - 0) = (385, 300)"
    "styleInverse \<lparr> panX = 100, panY = 0, zoom = 1.15 \<rparr> (800 / 2, 600 / 2)
       = (300 / 1.15, 300 / 1.15)"
    by (simp_all add: styleTransform_def styleInverse_def)
  show ?thesis
    unfolding start run5 run8 run9
    using f5(1,6) f8(1,3,4) f9 draw by (intro conjI)
qed

section \<open>Panning in double precision\<close>






















end
